theory Spec2Isabelle
  imports Complex_Main "HOL-Library.AList" "HOL-Library.List_Lexorder" "HOL-Library.Char_ord"
    "HOL-Library.Product_Lexorder"
begin

section \<open>Values\<close>

text \<open>
  The server of \<^verbatim>\<open>server.py\<close> keeps its state in module-level dictionaries and lists
  and talks to its clients through Socket.IO events. The embedding threads that state through
  every handler as a record and returns, next to the new state, the list of events the handler
  emitted, in order. Writing the state to its JSON files (the \<^verbatim>\<open>save_\<close> functions) does
  not change the state in memory and is left out, and so are the pages and the CSV exports,
  which only read.

  A Python \<^verbatim>\<open>dict\<close> keeps its keys in insertion order, so a dictionary is an association
  list: \<open>map_of\<close> is the lookup, \<open>AList.update\<close> is \<^verbatim>\<open>d[k] = v\<close> (the key keeps its
  place when it is there and goes to the end otherwise) and \<open>AList.delete\<close> is
  \<^verbatim>\<open>d.pop(k)\<close>.

  The objects that clients send are JSON objects whose values are strings (form fields); a row
  of a plan sheet is one too, after \<^verbatim>\<open>df.fillna('').astype(str)\<close>.
\<close>

type_synonym json = "(string \<times> string) list"

type_synonym row = "(string \<times> string) list"

type_synonym plan = "row list"

text \<open>Values of the records the server sends to the dashboard.\<close>

datatype pyval = PNone | PInt int | PFloat rat | PStr string

text \<open>\<^verbatim>\<open>d.get(k, default)\<close>\<close>

definition get_or :: "('k \<times> 'v) list \<Rightarrow> 'k \<Rightarrow> 'v \<Rightarrow> 'v" where
  "get_or d k dflt = (case map_of d k of None \<Rightarrow> dflt | Some v \<Rightarrow> v)"

text \<open>
  Truth value of the result of \<^verbatim>\<open>d.get(k)\<close> on a string-valued dictionary:
  \<^verbatim>\<open>None\<close> and the empty string are false.
\<close>

definition truthy :: "string option \<Rightarrow> bool" where
  "truthy v = (case v of None \<Rightarrow> False | Some s \<Rightarrow> s \<noteq> [])"

text \<open>\<^verbatim>\<open>d.get(k)\<close> as a value to send: \<^verbatim>\<open>None\<close> when the key is missing.\<close>

definition pyval_of :: "string option \<Rightarrow> pyval" where
  "pyval_of v = (case v of None \<Rightarrow> PNone | Some s \<Rightarrow> PStr s)"

text \<open>\<^verbatim>\<open>d.get(a) or d.get(b)\<close>\<close>

definition get_or_else :: "json \<Rightarrow> string \<Rightarrow> string \<Rightarrow> pyval" where
  "get_or_else d a b =
     (if truthy (map_of d a) then pyval_of (map_of d a) else pyval_of (map_of d b))"

text \<open>\<^verbatim>\<open>d.get(k, default)\<close> as a value to send.\<close>

definition get_val :: "json \<Rightarrow> string \<Rightarrow> pyval \<Rightarrow> pyval" where
  "get_val d k dflt = (case map_of d k of None \<Rightarrow> dflt | Some s \<Rightarrow> PStr s)"

text \<open>Decimal rendering of a natural number, as an f-string renders \<^verbatim>\<open>i+1\<close>.\<close>

definition digit_char :: "nat \<Rightarrow> char" where
  "digit_char n = ''0123456789'' ! (n mod 10)"

fun str_nat :: "nat \<Rightarrow> string" where
  "str_nat n = (if n < 10 then [digit_char n] else str_nat (n div 10) @ [digit_char n])"

declare str_nat.simps [simp del]

section \<open>Dates and times\<close>

text \<open>
  A naive \<^verbatim>\<open>datetime\<close>: the fields of the Python object. Time zones are left out; the
  server never attaches one.
\<close>

record datetime =
  year :: nat
  month :: nat
  day :: nat
  hour :: nat
  minute :: nat
  second :: nat
  microsecond :: nat

text \<open>\<^verbatim>\<open>dt.date()\<close>\<close>

definition date :: "datetime \<Rightarrow> nat \<times> nat \<times> nat" where
  "date dt = (year dt, month dt, day dt)"

text \<open>Python orders datetimes field by field; this is the key of that order.\<close>

definition dt_key :: "datetime \<Rightarrow> nat \<times> nat \<times> nat \<times> nat \<times> nat \<times> nat \<times> nat" where
  "dt_key dt = (year dt, month dt, day dt, hour dt, minute dt, second dt, microsecond dt)"

text \<open>
  The day number of a date in the proleptic Gregorian calendar (\<^verbatim>\<open>date.toordinal\<close>),
  which the subtraction of two datetimes goes through.
\<close>

definition is_leap :: "nat \<Rightarrow> bool" where
  "is_leap y = (y mod 4 = 0 \<and> (y mod 100 \<noteq> 0 \<or> y mod 400 = 0))"

definition days_in_month :: "nat \<Rightarrow> nat \<Rightarrow> nat" where
  "days_in_month y m =
     (if m = 2 then (if is_leap y then 29 else 28)
      else if m = 4 \<or> m = 6 \<or> m = 9 \<or> m = 11 then 30 else 31)"

definition days_before_year :: "nat \<Rightarrow> nat" where
  "days_before_year y = (y - 1) * 365 + (y - 1) div 4 - (y - 1) div 100 + (y - 1) div 400"

definition days_before_month :: "nat \<Rightarrow> nat \<Rightarrow> nat" where
  "days_before_month y m = sum_list (map (days_in_month y) [1..<m])"

definition toordinal :: "datetime \<Rightarrow> nat" where
  "toordinal dt = days_before_year (year dt) + days_before_month (year dt) (month dt) + day dt"

text \<open>Microseconds since the start of day 0.\<close>

definition to_microseconds :: "datetime \<Rightarrow> int" where
  "to_microseconds dt =
     ((int (toordinal dt) * 86400 + int (hour dt) * 3600 + int (minute dt) * 60 + int (second dt))
        * 1000000) + int (microsecond dt)"

text \<open>
  A datetime as \<^verbatim>\<open>datetime.fromisoformat\<close> returns it: naive, or aware when the text
  carries a UTC offset (\<^verbatim>\<open>+05:30\<close>, \<^verbatim>\<open>+00:00\<close>). The offset is in microseconds.
  The datetimes of the production log and the readings of the clock are naive: they come from
  \<^verbatim>\<open>strptime\<close> with a format that has no zone, and from \<^verbatim>\<open>datetime.now()\<close>.
\<close>

record timestamp =
  local_time :: datetime
  utcoffset :: "int option"

definition aware :: "timestamp \<Rightarrow> bool" where
  "aware t = (utcoffset t \<noteq> None)"

text \<open>The position of a timestamp on the time line: its offset is subtracted.\<close>

definition instant :: "timestamp \<Rightarrow> int" where
  "instant t =
     to_microseconds (local_time t) - (case utcoffset t of None \<Rightarrow> 0 | Some off \<Rightarrow> off)"


text \<open>
  \<^verbatim>\<open>(end_time - start_time).total_seconds() / 3600\<close>. The subtraction raises
  \<^verbatim>\<open>TypeError\<close> (here \<open>None\<close>) when one datetime is naive and the other aware.
  Python computes the quotient in floating point; the model keeps the exact rational the float
  approximates, which has the same sign.
\<close>

definition total_hours_between :: "timestamp \<Rightarrow> timestamp \<Rightarrow> rat option" where
  "total_hours_between start_time end_time =
     (if aware start_time \<noteq> aware end_time then None
      else Some (of_int (instant end_time - instant start_time) / 1000000 / 3600))"

text \<open>
  The functions of Python's library that turn text into datetimes and numbers, and back. They
  are not code of this repository, so every handler takes them as a parameter; \<open>None\<close> is
  the \<^verbatim>\<open>ValueError\<close> of the parser.
\<close>

record pylib =
  strptime :: "string \<Rightarrow> string \<Rightarrow> datetime option"
  fromisoformat :: "string \<Rightarrow> timestamp option"
  strftime :: "datetime \<Rightarrow> string \<Rightarrow> string"
  isoformat :: "datetime \<Rightarrow> string"
  isoformat_aware :: "timestamp \<Rightarrow> string"
  int_of_str :: "string \<Rightarrow> int option"

section \<open>The logs and the plan state\<close>

text \<open>
  An entry of \<^verbatim>\<open>SUBMISSION_LOG\<close>: the submitted object, and the value of its key
  \<^verbatim>\<open>'datetime'\<close>, which \<^verbatim>\<open>handle_submit_output\<close> sets on every entry before it
  stores it.
\<close>

record production_entry =
  entry_fields :: json
  entry_datetime :: datetime

text \<open>An entry of \<^verbatim>\<open>DOWNTIME_LOG\<close>: the dictionary \<^verbatim>\<open>handle_submit_downtime\<close> builds.\<close>

record downtime_entry =
  d_start_time :: timestamp
  d_end_time :: timestamp
  d_total_hours :: rat
  d_worker_name :: string
  d_shift :: string
  d_machine_name :: string
  d_fg_part_no :: string
  d_cable_id :: string
  d_reason :: string
  d_t1_apl_no :: string
  d_t2_apl_no :: string

text \<open>An element of a machine's list in \<^verbatim>\<open>MACHINE_PLAN_HISTORY\<close>.\<close>

record archive =
  archived_at :: string
  archived_plan :: plan

record server_state =
  SUBMISSION_LOG :: "production_entry list"
  DOWNTIME_LOG :: "downtime_entry list"
  SCRAP_LOG :: "json list"
  INITIAL_CABLE_STOCK :: "(string \<times> rat) list"
  MACHINE_PLANS :: "(string \<times> plan) list"
  MACHINE_PLAN_QUEUES :: "(string \<times> plan list) list"
  MACHINE_PLAN_HISTORY :: "(string \<times> archive list) list"
  SID_TO_MACHINE :: "(string \<times> string) list"

section \<open>Emitted events\<close>

text \<open>The record \<^verbatim>\<open>broadcast_data\<close> sends under \<^verbatim>\<open>'update_dashboard'\<close>.\<close>

record snapshot =
  snap_log :: "(string \<times> pyval) list list"
  snap_chart_data :: "(string \<times> int) list"
  snap_machines :: "string list"
  snap_initial_stock :: "(string \<times> rat) list"
  snap_downtime_log :: "(string \<times> pyval) list list"

text \<open>
  Why a request was refused; each constructor stands for the reason text the server sends
  (\<^verbatim>\<open>'Missing machine name.'\<close>, \<^verbatim>\<open>'Machine M is already connected.'\<close>,
  \<^verbatim>\<open>'No queued plans'\<close>, the texts built from a \<^verbatim>\<open>KeyError\<close>, a
  \<^verbatim>\<open>ValueError\<close> or, under \<^verbatim>\<open>except Exception\<close>, a \<^verbatim>\<open>TypeError\<close>, \<^verbatim>\<open>'Missing target machine or message text.'\<close> and
  \<^verbatim>\<open>'Machine is currently offline or not connected.'\<close>).
\<close>

datatype failure =
    Missing_machine_name
  | Already_connected string
  | No_queued_plans
  | KeyError string
  | ValueError
  | TypeError
  | Missing_target_or_text
  | Machine_offline

text \<open>
  One constructor for each event name; the arguments are the fields of the payload. A reply
  with \<^verbatim>\<open>'success'\<close> carries \<open>None\<close> on success and the reason on failure.
\<close>

datatype message =
    Update_dashboard snapshot
  | Update_machine_status "string set"
  | Update_worker_plan plan string
  | Queued_plan_count nat string
  | Plan_history_update "archive list" string
  | Plan_history "archive list" string
  | Queued_plans "plan list" string
  | Dequeue_failed failure string
  | Dequeued_plan plan string
  | Join_confirm "failure option" "string option"
  | Submission_success "failure option"
  | Downtime_submission_success "failure option"
  | Submit_scrap_data json
  | Initial_scrap_data "json list"
  | Live_message string
  | Message_sent_confirm "failure option" "string option"

text \<open>
  \<^verbatim>\<open>socketio.emit(event, data)\<close> goes to every connected client;
  \<^verbatim>\<open>room=r\<close> restricts it to a room (a connection id is the room of that connection).
  The payload is encoded when \<^verbatim>\<open>emit\<close> is called, so an emitted message holds the
  value the data had at that moment.
\<close>

datatype scope = All_clients | Room string

type_synonym emit = "scope \<times> message"

section \<open>Queries by date and the dashboard broadcast\<close>

text \<open>
  \<^verbatim>\<open>xs.sort(key=f, reverse=True)\<close>: descending by key, and stable (entries with equal
  keys keep their order), which fixes the result.
\<close>

fun insort_desc :: "('a \<Rightarrow> 'k::linorder) \<Rightarrow> 'a \<Rightarrow> 'a list \<Rightarrow> 'a list" where
  "insort_desc f x [] = [x]"
| "insort_desc f x (y # ys) = (if f y \<le> f x then x # y # ys else y # insort_desc f x ys)"

definition sort_desc :: "('a \<Rightarrow> 'k::linorder) \<Rightarrow> 'a list \<Rightarrow> 'a list" where
  "sort_desc f xs = foldr (insort_desc f) xs []"

definition get_data_for_date :: "pylib \<Rightarrow> production_entry list \<Rightarrow> string \<Rightarrow> production_entry list"
  where
  "get_data_for_date lib submission_log date_str =
     (if date_str = [] then submission_log
      else case strptime lib date_str ''%Y-%m-%d'' of
        None \<Rightarrow> submission_log
      | Some d \<Rightarrow>
          sort_desc (\<lambda>x. dt_key (entry_datetime x))
            (filter (\<lambda>entry. date (entry_datetime entry) = date d) submission_log))"

text \<open>
  \<^verbatim>\<open>get_downtime_for_date\<close>. The sort compares the start times of the entries of the
  date with \<^verbatim>\<open><\<close>, which raises \<^verbatim>\<open>TypeError\<close> (here \<open>None\<close>) as soon as
  a naive and an aware one meet; any sort of a list that holds both compares such a pair.
\<close>

definition sort_by_start :: "downtime_entry list \<Rightarrow> downtime_entry list option" where
  "sort_by_start entries =
     (if list_all (\<lambda>x. \<not> aware (d_start_time x)) entries
      then Some (sort_desc (\<lambda>x. dt_key (local_time (d_start_time x))) entries)
      else if list_all (\<lambda>x. aware (d_start_time x)) entries
      then Some (sort_desc (\<lambda>x. instant (d_start_time x)) entries)
      else None)"

definition get_downtime_for_date ::
  "pylib \<Rightarrow> downtime_entry list \<Rightarrow> string \<Rightarrow> downtime_entry list option" where
  "get_downtime_for_date lib downtime_log date_str =
     (if date_str = [] then Some downtime_log
      else case strptime lib date_str ''%Y-%m-%d'' of
        None \<Rightarrow> Some downtime_log
      | Some d \<Rightarrow>
          sort_by_start
            (filter (\<lambda>entry. date (local_time (d_start_time entry)) = date d) downtime_log))"

text \<open>The display record of one production entry.\<close>

definition clean_entry :: "pylib \<Rightarrow> production_entry \<Rightarrow> (string \<times> pyval) list" where
  "clean_entry lib entry =
     (let e = entry_fields entry in
      [(''time_display'', PStr (strftime lib (entry_datetime entry) ''%Y-%m-%d %H:%M:%S'')),
       (''worker_name'', get_val e ''operator_name'' (PStr ''N/A'')),
       (''shift'', get_val e ''shift'' (PStr ''N/A'')),
       (''machine_name'', get_val e ''machine_name'' (PStr ''N/A'')),
       (''fg_part_no'', get_val e ''fg_part_no'' (PStr ''N/A'')),
       (''cable_id'', get_val e ''cable_id'' (PStr ''N/A'')),
       (''produced_qty'', get_val e ''produced_qty'' (PInt 0)),
       (''produced_length'', get_val e ''produced_length'' (PFloat 0)),
       (''qty_produced_hours'', get_val e ''qty_produced_hours'' (PFloat 0)),
       (''t1_terminal_id'', get_val e ''t1_terminal_id'' (PStr [])),
       (''t1_apl_no'', get_val e ''t1_apl_no'' (PStr [])),
       (''t1_crimp_height'', get_or_else e ''t1_crimp_height_manual'' ''t1_crimp_height_measured''),
       (''t1_insulation_height'',
          get_or_else e ''t1_insulation_height_manual'' ''t1_insulation_height_measured''),
       (''t1_crimp_width'', get_or_else e ''t1_crimp_width_manual'' ''t1_crimp_width_measured''),
       (''t1_insulation_width'',
          get_or_else e ''t1_insulation_width_manual'' ''t1_insulation_width_measured''),
       (''t1_pull_force'', get_or_else e ''t1_pull_force_manual'' ''t1_pull_force_measured''),
       (''t2_terminal_id'', get_val e ''t2_terminal_id'' (PStr [])),
       (''t2_apl_no'', get_val e ''t2_apl_no'' (PStr [])),
       (''t2_crimp_height'', get_or_else e ''t2_crimp_height_manual'' ''t2_crimp_height_measured''),
       (''t2_insulation_height'',
          get_or_else e ''t2_insulation_height_manual'' ''t2_insulation_height_measured''),
       (''t2_crimp_width'', get_or_else e ''t2_crimp_width_manual'' ''t2_crimp_width_measured''),
       (''t2_insulation_width'',
          get_or_else e ''t2_insulation_width_manual'' ''t2_insulation_width_measured''),
       (''t2_pull_force'', get_or_else e ''t2_pull_force_manual'' ''t2_pull_force_measured'')])"

text \<open>
  \<^verbatim>\<open>int(entry.get('produced_qty', 0))\<close>, with 0 when the conversion raises, added to the
  total of the entry's machine.
\<close>

definition entry_qty :: "pylib \<Rightarrow> production_entry \<Rightarrow> int" where
  "entry_qty lib entry =
     (case map_of (entry_fields entry) ''produced_qty'' of
        None \<Rightarrow> 0
      | Some v \<Rightarrow> (case int_of_str lib v of None \<Rightarrow> 0 | Some q \<Rightarrow> q))"

definition add_qty :: "pylib \<Rightarrow> (string \<times> int) list \<Rightarrow> production_entry \<Rightarrow> (string \<times> int) list"
  where
  "add_qty lib machine_qty_totals entry =
     (let k = get_or (entry_fields entry) ''machine_name'' ''UNKNOWN''
      in AList.update k (get_or machine_qty_totals k 0 + entry_qty lib entry) machine_qty_totals)"

text \<open>A downtime entry as it is sent: the two datetimes as ISO strings.\<close>

definition serializable_downtime :: "pylib \<Rightarrow> downtime_entry \<Rightarrow> (string \<times> pyval) list" where
  "serializable_downtime lib entry =
     [(''start_time'', PStr (isoformat_aware lib (d_start_time entry))),
      (''end_time'', PStr (isoformat_aware lib (d_end_time entry))),
      (''total_hours'', PFloat (d_total_hours entry)),
      (''worker_name'', PStr (d_worker_name entry)),
      (''shift'', PStr (d_shift entry)),
      (''machine_name'', PStr (d_machine_name entry)),
      (''fg_part_no'', PStr (d_fg_part_no entry)),
      (''cable_id'', PStr (d_cable_id entry)),
      (''reason'', PStr (d_reason entry)),
      (''t1_apl_no'', PStr (d_t1_apl_no entry)),
      (''t2_apl_no'', PStr (d_t2_apl_no entry))]"

text \<open>
  The record \<^verbatim>\<open>broadcast_data\<close> builds. It is built, and sent, only when the downtime
  query has returned.
\<close>

definition dashboard_data :: "pylib \<Rightarrow> server_state \<Rightarrow> string \<Rightarrow> snapshot" where
  "dashboard_data lib s date_str =
     (let log_to_send = get_data_for_date lib (SUBMISSION_LOG s) date_str;
          downtime_log_to_send =
            (case get_downtime_for_date lib (DOWNTIME_LOG s) date_str of
               None \<Rightarrow> [] | Some entries \<Rightarrow> entries)
      in \<lparr>snap_log = map (clean_entry lib) log_to_send,
          snap_chart_data = foldl (add_qty lib) [] log_to_send,
          snap_machines = sort (map fst (MACHINE_PLANS s)),
          snap_initial_stock = INITIAL_CABLE_STOCK s,
          snap_downtime_log = map (serializable_downtime lib) downtime_log_to_send\<rparr>)"

text \<open>
  \<^verbatim>\<open>broadcast_data(date_str)\<close>; \<open>now\<close> is the reading of \<^verbatim>\<open>datetime.now()\<close> that
  stands in for a missing date. The result is \<open>None\<close> when the downtime query raises
  \<^verbatim>\<open>TypeError\<close>: the function emits nothing then, since its one \<^verbatim>\<open>emit\<close> is its
  last statement.
\<close>

definition broadcast_data ::
  "pylib \<Rightarrow> datetime \<Rightarrow> server_state \<Rightarrow> string option \<Rightarrow> emit list option" where
  "broadcast_data lib now s date_str =
     (let date_str' =
        (case date_str of
           None \<Rightarrow> strftime lib now ''%Y-%m-%d''
         | Some d \<Rightarrow> if d = [] then strftime lib now ''%Y-%m-%d'' else d)
      in case get_downtime_for_date lib (DOWNTIME_LOG s) date_str' of
           None \<Rightarrow> None
         | Some entries \<Rightarrow> Some [(All_clients, Update_dashboard (dashboard_data lib s date_str'))])"

text \<open>The events of a broadcast that a handler passes on, none when it raised.\<close>

definition emitted :: "emit list option \<Rightarrow> emit list" where
  "emitted r = (case r of None \<Rightarrow> [] | Some es \<Rightarrow> es)"

definition broadcast_online_status :: "server_state \<Rightarrow> emit list" where
  "broadcast_online_status s =
     [(All_clients, Update_machine_status (set (map snd (SID_TO_MACHINE s))))]"

section \<open>Plan lifecycle\<close>

text \<open>
  The loop of \<^verbatim>\<open>upload_plan\<close> over \<^verbatim>\<open>enumerate(plan_data_raw)\<close>: every row gets
  \<^verbatim>\<open>line_id = f"{target_machine}_{i+1}"\<close> and \<^verbatim>\<open>status = 'pending'\<close>.
\<close>

fun number_rows :: "string \<Rightarrow> nat \<Rightarrow> row list \<Rightarrow> plan" where
  "number_rows target_machine i [] = []"
| "number_rows target_machine i (item # rest) =
     AList.update ''status'' ''pending''
       (AList.update ''line_id'' (target_machine @ ''_'' @ str_nat (i + 1)) item)
     # number_rows target_machine (i + 1) rest"

text \<open>\<^verbatim>\<open>any(p.get('status') != 'completed' for p in plan)\<close>\<close>

definition has_pending :: "plan \<Rightarrow> bool" where
  "has_pending p = list_ex (\<lambda>item. map_of item ''status'' \<noteq> Some ''completed'') p"

text \<open>
  The loop of \<^verbatim>\<open>handle_mark_plan_complete\<close>: the first row whose \<^verbatim>\<open>line_id\<close> is
  the given one gets \<^verbatim>\<open>status = 'completed'\<close>, and the loop stops there.
\<close>

fun complete_row :: "string \<Rightarrow> plan \<Rightarrow> plan" where
  "complete_row line_id [] = []"
| "complete_row line_id (item # rest) =
     (if map_of item ''line_id'' = Some line_id
      then AList.update ''status'' ''completed'' item # rest
      else item # complete_row line_id rest)"

text \<open>
  The response of a route whose \<^verbatim>\<open>try\<close> block ended in the
  \<^verbatim>\<open>TypeError\<close> of a broadcast: \<^verbatim>\<open>except Exception\<close> answers with the text of
  the exception and status 500.
\<close>

definition error_processing_file :: "string \<times> nat" where
  "error_processing_file =
     (''Error processing file: can'' @ [CHR 0x27]
        @ ''t compare offset-naive and offset-aware datetimes'', 500)"

text \<open>
  \<^verbatim>\<open>upload_plan\<close>, from the decoded sheet on: \<open>df\<close> is the list of the sheet's rows
  after \<^verbatim>\<open>fillna('').astype(str)\<close>, of which \<^verbatim>\<open>df.head(10)\<close> keeps the first ten.
  The result is the HTTP response (text and status), the new state and the emitted events.
  The broadcast comes last; when it raises, the state has been changed and the events before
  it have been emitted.
\<close>

definition upload_plan ::
  "pylib \<Rightarrow> datetime \<Rightarrow> string option \<Rightarrow> row list \<Rightarrow> server_state
     \<Rightarrow> (string \<times> nat) \<times> server_state \<times> emit list" where
  "upload_plan lib now target_machine_arg df s =
     (if \<not> truthy target_machine_arg
      then ((''Error: Missing machine name or file.'', 400), s, [])
      else
        let target_machine = the target_machine_arg;
            plan_data_raw = take 10 df;
            plan_data_processed = number_rows target_machine 0 plan_data_raw;
            existing_plan = map_of (MACHINE_PLANS s) target_machine;
            has_active_pending =
              (case existing_plan of None \<Rightarrow> False | Some p \<Rightarrow> p \<noteq> [] \<and> has_pending p);
            today = strftime lib now ''%Y-%m-%d''
        in if has_active_pending then
             let q = get_or (MACHINE_PLAN_QUEUES s) target_machine [] @ [plan_data_processed];
                 s' = s\<lparr>MACHINE_PLAN_QUEUES := AList.update target_machine q (MACHINE_PLAN_QUEUES s)\<rparr>;
                 broadcast = broadcast_data lib now s' (Some today)
             in ((if broadcast = None then error_processing_file
                  else (''Success: Plan sheet for '' @ target_machine
                          @ '' uploaded and queued (existing active plan).'', 200)),
                 s',
                 (Room target_machine, Queued_plan_count (length q) target_machine)
                   # emitted broadcast)
           else
             let s' = s\<lparr>MACHINE_PLANS :=
                        AList.update target_machine plan_data_processed (MACHINE_PLANS s)\<rparr>;
                 broadcast = broadcast_data lib now s' (Some today)
             in ((if broadcast = None then error_processing_file
                  else (''Success: Plan sheet for '' @ target_machine
                          @ '' uploaded and sent to machine room.'', 200)),
                 s',
                 [(Room target_machine, Update_worker_plan plan_data_processed target_machine),
                  (Room target_machine,
                     Queued_plan_count (length (get_or (MACHINE_PLAN_QUEUES s') target_machine []))
                       target_machine)]
                   @ emitted broadcast))"

text \<open>
  \<^verbatim>\<open>handle_mark_plan_complete\<close>; \<open>utcnow\<close> is the reading of
  \<^verbatim>\<open>datetime.utcnow()\<close>. The row is changed in place in the list that
  \<^verbatim>\<open>MACHINE_PLANS\<close> holds, and \<^verbatim>\<open>queue.pop(0)\<close> changes the list that
  \<^verbatim>\<open>MACHINE_PLAN_QUEUES\<close> holds.
\<close>

definition handle_mark_plan_complete ::
  "pylib \<Rightarrow> datetime \<Rightarrow> json \<Rightarrow> server_state \<Rightarrow> server_state \<times> emit list" where
  "handle_mark_plan_complete lib utcnow data s =
     (let line_id_arg = map_of data ''lineId'';
          machine_name_arg = map_of data ''machineName''
      in if \<not> truthy line_id_arg \<or> \<not> truthy machine_name_arg then (s, [])
         else
           (let line_id = the line_id_arg; machine_name = the machine_name_arg
            in (case map_of (MACHINE_PLANS s) machine_name of
                  None \<Rightarrow> (s, [])
                | Some plan0 \<Rightarrow>
                   (let p = complete_row line_id plan0;
                        s1 = s\<lparr>MACHINE_PLANS := AList.update machine_name p (MACHINE_PLANS s)\<rparr>;
                        e1 = [(Room machine_name, Update_worker_plan p machine_name)];
                        queue = get_or (MACHINE_PLAN_QUEUES s1) machine_name []
                    in if \<not> has_pending p \<and> queue \<noteq> [] then
                         (let next_plan = hd queue;
                              queue' = tl queue;
                              s2 = s1\<lparr>MACHINE_PLAN_QUEUES :=
                                     AList.update machine_name queue' (MACHINE_PLAN_QUEUES s1)\<rparr>;
                              history = get_or (MACHINE_PLAN_HISTORY s2) machine_name []
                                @ [\<lparr>archived_at = isoformat lib utcnow, archived_plan = p\<rparr>];
                              s3 = s2\<lparr>MACHINE_PLAN_HISTORY :=
                                     AList.update machine_name history (MACHINE_PLAN_HISTORY s2)\<rparr>;
                              s4 = s3\<lparr>MACHINE_PLANS :=
                                     AList.update machine_name next_plan (MACHINE_PLANS s3)\<rparr>
                          in (s4, e1 @
                               [(Room machine_name, Plan_history_update history machine_name),
                                (Room machine_name, Update_worker_plan next_plan machine_name),
                                (Room machine_name,
                                   Queued_plan_count (length queue') machine_name)]))
                       else
                         (s1, e1 @
                            [(Room machine_name,
                                Queued_plan_count (length queue) machine_name)])))))"

text \<open>
  The archiving step of \<^verbatim>\<open>handle_request_dequeue_plan\<close>: the current plan goes to the
  machine's history when there is one and it is not empty.
\<close>

definition archive_current ::
  "pylib \<Rightarrow> datetime \<Rightarrow> string \<Rightarrow> server_state \<Rightarrow> server_state \<times> emit list" where
  "archive_current lib utcnow machine_name s =
     (case map_of (MACHINE_PLANS s) machine_name of
        None \<Rightarrow> (s, [])
      | Some current \<Rightarrow>
          if current = [] then (s, [])
          else
            (let history = get_or (MACHINE_PLAN_HISTORY s) machine_name []
                   @ [\<lparr>archived_at = isoformat lib utcnow, archived_plan = current\<rparr>]
             in (s\<lparr>MACHINE_PLAN_HISTORY :=
                     AList.update machine_name history (MACHINE_PLAN_HISTORY s)\<rparr>,
                 [(Room machine_name, Plan_history_update history machine_name)])))"

text \<open>\<^verbatim>\<open>handle_request_dequeue_plan\<close>; \<open>sid\<close> is \<^verbatim>\<open>request.sid\<close>.\<close>

definition handle_request_dequeue_plan ::
  "pylib \<Rightarrow> datetime \<Rightarrow> string \<Rightarrow> json \<Rightarrow> server_state \<Rightarrow> server_state \<times> emit list" where
  "handle_request_dequeue_plan lib utcnow sid data s =
     (let machine_name_arg = map_of data ''machineName''
      in if \<not> truthy machine_name_arg then (s, [])
         else
           (let machine_name = the machine_name_arg;
                queue = get_or (MACHINE_PLAN_QUEUES s) machine_name []
            in if queue = []
               then (s, [(Room sid, Dequeue_failed No_queued_plans machine_name)])
               else
                 (let next_plan = hd queue;
                      queue' = tl queue;
                      s1 = s\<lparr>MACHINE_PLAN_QUEUES :=
                             AList.update machine_name queue' (MACHINE_PLAN_QUEUES s)\<rparr>;
                      (s2, e1) = archive_current lib utcnow machine_name s1;
                      s3 = s2\<lparr>MACHINE_PLANS :=
                             AList.update machine_name next_plan (MACHINE_PLANS s2)\<rparr>
                  in (s3, e1 @
                       [(Room machine_name, Dequeued_plan next_plan machine_name),
                        (Room machine_name, Queued_plan_count (length queue') machine_name)]))))"

text \<open>
  What the server reads of a machine's plan state, with the defaults it uses:
  \<^verbatim>\<open>MACHINE_PLANS.get(m, [])\<close>, \<^verbatim>\<open>len(MACHINE_PLAN_QUEUES.get(m, []))\<close>,
  \<^verbatim>\<open>MACHINE_PLAN_HISTORY.get(m, [])\<close> and \<^verbatim>\<open>MACHINE_PLAN_QUEUES.get(m, [])\<close>.
\<close>

definition getActive :: "string \<Rightarrow> server_state \<Rightarrow> plan" where
  "getActive m s = get_or (MACHINE_PLANS s) m []"

definition getQueuedPlans :: "string \<Rightarrow> server_state \<Rightarrow> plan list" where
  "getQueuedPlans m s = get_or (MACHINE_PLAN_QUEUES s) m []"

definition getQueueDepth :: "string \<Rightarrow> server_state \<Rightarrow> nat" where
  "getQueueDepth m s = length (getQueuedPlans m s)"

definition getHistory :: "string \<Rightarrow> server_state \<Rightarrow> archive list" where
  "getHistory m s = get_or (MACHINE_PLAN_HISTORY s) m []"

definition handle_request_plan_history :: "string \<Rightarrow> json \<Rightarrow> server_state \<Rightarrow> emit list" where
  "handle_request_plan_history sid data s =
     (let machine_name_arg = map_of data ''machineName''
      in if \<not> truthy machine_name_arg then []
         else [(Room sid, Plan_history (getHistory (the machine_name_arg) s) (the machine_name_arg))])"

definition handle_request_queued_plans :: "string \<Rightarrow> json \<Rightarrow> server_state \<Rightarrow> emit list" where
  "handle_request_queued_plans sid data s =
     (let machine_name_arg = map_of data ''machineName''
      in if \<not> truthy machine_name_arg then []
         else [(Room sid,
                  Queued_plans (getQueuedPlans (the machine_name_arg) s) (the machine_name_arg))])"

section \<open>Presence\<close>

text \<open>
  The loop of \<^verbatim>\<open>handle_join_machine_room\<close> over \<^verbatim>\<open>SID_TO_MACHINE.items()\<close>:
  is the machine connected under another connection id?
\<close>

definition connected_elsewhere :: "string \<Rightarrow> string \<Rightarrow> (string \<times> string) list \<Rightarrow> bool" where
  "connected_elsewhere sid machine_name sid_to_machine =
     list_ex (\<lambda>(sid', name). name = machine_name \<and> sid' \<noteq> sid) sid_to_machine"

text \<open>
  \<^verbatim>\<open>handle_join_machine_room\<close>; \<open>sid\<close> is \<^verbatim>\<open>request.sid\<close>.
  \<^verbatim>\<open>join_room\<close> changes only the room table of the Socket.IO library.
\<close>

definition handle_join_machine_room :: "string \<Rightarrow> json \<Rightarrow> server_state \<Rightarrow> server_state \<times> emit list"
  where
  "handle_join_machine_room sid data s =
     (let machine_name_arg = map_of data ''machineName''
      in if \<not> truthy machine_name_arg
         then (s, [(Room sid, Join_confirm (Some Missing_machine_name) None)])
         else
           (let machine_name = the machine_name_arg
            in if connected_elsewhere sid machine_name (SID_TO_MACHINE s)
               then (s, [(Room sid, Join_confirm (Some (Already_connected machine_name)) None)])
               else
                 (let s' = s\<lparr>SID_TO_MACHINE :=
                             AList.update sid machine_name (SID_TO_MACHINE s)\<rparr>
                  in (s', broadcast_online_status s' @
                        [(Room sid, Update_worker_plan (getActive machine_name s') machine_name),
                         (Room sid, Queued_plan_count (getQueueDepth machine_name s') machine_name),
                         (Room sid, Join_confirm None (Some machine_name))]))))"

definition handle_disconnect :: "string \<Rightarrow> server_state \<Rightarrow> server_state \<times> emit list" where
  "handle_disconnect sid s =
     (if map_of (SID_TO_MACHINE s) sid \<noteq> None
      then (let s' = s\<lparr>SID_TO_MACHINE := AList.delete sid (SID_TO_MACHINE s)\<rparr>
            in (s', broadcast_online_status s'))
      else (s, []))"

text \<open>\<^verbatim>\<open>target_machine in SID_TO_MACHINE.values()\<close>\<close>

definition is_online :: "string \<Rightarrow> server_state \<Rightarrow> bool" where
  "is_online machine_name s = (machine_name \<in> set (map snd (SID_TO_MACHINE s)))"

definition handle_send_live_message :: "string \<Rightarrow> json \<Rightarrow> server_state \<Rightarrow> emit list" where
  "handle_send_live_message sid data s =
     (let target_machine = map_of data ''targetMachine'';
          message_text = map_of data ''messageText''
      in if \<not> truthy target_machine \<or> \<not> truthy message_text
         then [(Room sid, Message_sent_confirm (Some Missing_target_or_text) target_machine)]
         else if is_online (the target_machine) s
         then [(Room (the target_machine), Live_message (the message_text)),
               (Room sid, Message_sent_confirm None target_machine)]
         else [(Room sid, Message_sent_confirm (Some Machine_offline) target_machine)])"

text \<open>
  \<^verbatim>\<open>handle_connect\<close>. Nothing in it catches the \<^verbatim>\<open>TypeError\<close> of the broadcast,
  which then ends the handler before the online status is sent.
\<close>

definition handle_connect :: "pylib \<Rightarrow> datetime \<Rightarrow> string \<Rightarrow> server_state \<Rightarrow> emit list" where
  "handle_connect lib now path s =
     (if path = ''/dashboard''
      then (case broadcast_data lib now s (Some (strftime lib now ''%Y-%m-%d'')) of
              None \<Rightarrow> []
            | Some es \<Rightarrow> es @ broadcast_online_status s)
      else [])"

section \<open>Submissions\<close>

text \<open>
  \<^verbatim>\<open>handle_submit_output\<close>. The stored entry is the submitted object with its key
  \<^verbatim>\<open>'datetime'\<close> set to the parsed datetime; in the record that key is the second field,
  so it is taken out of the first. The handler catches \<^verbatim>\<open>KeyError\<close> and
  \<^verbatim>\<open>ValueError\<close> only: the \<^verbatim>\<open>TypeError\<close> of the broadcast ends it after the
  entry is stored, with nothing emitted.
\<close>

definition handle_submit_output ::
  "pylib \<Rightarrow> datetime \<Rightarrow> string \<Rightarrow> json \<Rightarrow> server_state \<Rightarrow> server_state \<times> emit list" where
  "handle_submit_output lib now sid data s =
     (case map_of data ''entry_date'' of
        None \<Rightarrow> (s, [(Room sid, Submission_success (Some (KeyError ''entry_date'')))])
      | Some entry_date \<Rightarrow>
         (case map_of data ''entry_time'' of
            None \<Rightarrow> (s, [(Room sid, Submission_success (Some (KeyError ''entry_time'')))])
          | Some entry_time \<Rightarrow>
             (case strptime lib (entry_date @ '' '' @ entry_time) ''%Y-%m-%d %H:%M'' of
                None \<Rightarrow> (s, [(Room sid, Submission_success (Some ValueError))])
              | Some dt \<Rightarrow>
                 (let entry = \<lparr>entry_fields = AList.delete ''datetime'' data,
                                entry_datetime = dt\<rparr>;
                      s' = s\<lparr>SUBMISSION_LOG := SUBMISSION_LOG s @ [entry]\<rparr>
                  in (s', (case broadcast_data lib now s'
                                   (Some (strftime lib dt ''%Y-%m-%d'')) of
                             None \<Rightarrow> []
                           | Some es \<Rightarrow> es @ [(Room sid, Submission_success None)]))))))"

text \<open>
  \<^verbatim>\<open>handle_submit_downtime\<close>. Nothing in it compares \<^verbatim>\<open>end_time\<close> with
  \<^verbatim>\<open>start_time\<close>. Its last clause, \<^verbatim>\<open>except Exception\<close>, catches the
  \<^verbatim>\<open>TypeError\<close> of the subtraction, raised before anything is stored, and that of the
  broadcast, raised after the entry is stored; both are answered with a failure.
\<close>

definition handle_submit_downtime ::
  "pylib \<Rightarrow> datetime \<Rightarrow> string \<Rightarrow> json \<Rightarrow> server_state \<Rightarrow> server_state \<times> emit list" where
  "handle_submit_downtime lib now sid data s =
     (case map_of data ''start_time'' of
        None \<Rightarrow> (s, [(Room sid, Downtime_submission_success (Some (KeyError ''start_time'')))])
      | Some start_str \<Rightarrow>
         (case fromisoformat lib start_str of
            None \<Rightarrow> (s, [(Room sid, Downtime_submission_success (Some ValueError))])
          | Some start_time \<Rightarrow>
             (case map_of data ''end_time'' of
                None \<Rightarrow>
                  (s, [(Room sid, Downtime_submission_success (Some (KeyError ''end_time'')))])
              | Some end_str \<Rightarrow>
                 (case fromisoformat lib end_str of
                    None \<Rightarrow> (s, [(Room sid, Downtime_submission_success (Some ValueError))])
                  | Some end_time \<Rightarrow>
                     (case total_hours_between start_time end_time of
                        None \<Rightarrow> (s, [(Room sid, Downtime_submission_success (Some TypeError))])
                      | Some total_hours \<Rightarrow>
                         (let downtime_entry =
                                \<lparr>d_start_time = start_time,
                                 d_end_time = end_time,
                                 d_total_hours = total_hours,
                                 d_worker_name = get_or data ''operator_name'' ''N/A'',
                                 d_shift = get_or data ''shift'' ''N/A'',
                                 d_machine_name = get_or data ''machine_name'' ''N/A'',
                                 d_fg_part_no = get_or data ''fg_part_no'' ''N/A'',
                                 d_cable_id = get_or data ''cable_id'' ''N/A'',
                                 d_reason = get_or data ''reason'' ''No Reason Provided'',
                                 d_t1_apl_no = get_or data ''t1_apl_no'' ''N/A'',
                                 d_t2_apl_no = get_or data ''t2_apl_no'' ''N/A''\<rparr>;
                              s' = s\<lparr>DOWNTIME_LOG := DOWNTIME_LOG s @ [downtime_entry]\<rparr>
                          in (s',
                              (case broadcast_data lib now s'
                                      (Some (strftime lib (local_time start_time) ''%Y-%m-%d'')) of
                                 None \<Rightarrow> [(Room sid, Downtime_submission_success (Some TypeError))]
                               | Some es \<Rightarrow>
                                   es @ [(Room sid, Downtime_submission_success None)]))))))))"

text \<open>
  \<^verbatim>\<open>handle_scrap_submission\<close>; \<open>now\<close> is the reading of \<^verbatim>\<open>datetime.now()\<close>.
  The first statement of the function is an \<^verbatim>\<open>emit\<close>, before its docstring.
\<close>

definition handle_scrap_submission ::
  "pylib \<Rightarrow> datetime \<Rightarrow> json \<Rightarrow> server_state \<Rightarrow> server_state \<times> emit list" where
  "handle_scrap_submission lib now data s =
     (let e1 = [(All_clients, Submit_scrap_data data)];
          data' = (if map_of data ''timestamp'' = None
                   then AList.update ''timestamp'' (strftime lib now ''%Y-%m-%d %H:%M:%S'') data
                   else data);
          s' = s\<lparr>SCRAP_LOG := SCRAP_LOG s @ [data']\<rparr>
      in (s', e1 @ [(All_clients, Submit_scrap_data data')]))"

definition handle_scrap_history_request :: "string \<Rightarrow> server_state \<Rightarrow> emit list" where
  "handle_scrap_history_request sid s = [(Room sid, Initial_scrap_data (SCRAP_LOG s))]"

text \<open>
  \<^verbatim>\<open>upload_stock\<close>, from the dictionary \<^verbatim>\<open>new_stock_data\<close> it builds out of the
  sheet on, and \<^verbatim>\<open>upload_consumption\<close>, which reads its file and discards it. A request
  these routes refuse changes and emits nothing. Both end in a broadcast, which emits nothing
  when it raises; so does \<^verbatim>\<open>handle_request_dashboard_data\<close>, which catches nothing.
\<close>

definition upload_stock ::
  "pylib \<Rightarrow> datetime \<Rightarrow> (string \<times> rat) list \<Rightarrow> server_state \<Rightarrow> server_state \<times> emit list"
  where
  "upload_stock lib now new_stock_data s =
     (let s' = s\<lparr>INITIAL_CABLE_STOCK := new_stock_data\<rparr>
      in (s', emitted (broadcast_data lib now s' (Some (strftime lib now ''%Y-%m-%d'')))))"

definition upload_consumption :: "pylib \<Rightarrow> datetime \<Rightarrow> server_state \<Rightarrow> emit list" where
  "upload_consumption lib now s =
     emitted (broadcast_data lib now s (Some (strftime lib now ''%Y-%m-%d'')))"

definition handle_request_dashboard_data ::
  "pylib \<Rightarrow> datetime \<Rightarrow> json \<Rightarrow> server_state \<Rightarrow> emit list" where
  "handle_request_dashboard_data lib now data s =
     emitted (broadcast_data lib now s (map_of data ''date''))"

section \<open>Runs of the server\<close>

text \<open>
  One inbound event, an HTTP upload or a Socket.IO message, with the clock reading and the
  connection id its handler uses. Handlers run one at a time, each to completion.
\<close>

datatype event =
    Upload_plan datetime "string option" "row list"
  | Upload_stock datetime "(string \<times> rat) list"
  | Upload_consumption datetime
  | Submit_output datetime string json
  | Submit_downtime datetime string json
  | Submit_scrap_data_event datetime json
  | Join_machine_room string json
  | Mark_plan_complete datetime json
  | Request_dequeue_plan datetime string json
  | Request_dashboard_data datetime json
  | Request_plan_history string json
  | Request_queued_plans string json
  | Request_scrap_history string
  | Send_live_message string json
  | Connect datetime string
  | Disconnect string

fun handle :: "pylib \<Rightarrow> event \<Rightarrow> server_state \<Rightarrow> server_state \<times> emit list" where
  "handle lib (Upload_plan now target_machine df) s = snd (upload_plan lib now target_machine df s)"
| "handle lib (Upload_stock now new_stock_data) s = upload_stock lib now new_stock_data s"
| "handle lib (Upload_consumption now) s = (s, upload_consumption lib now s)"
| "handle lib (Submit_output now sid data) s = handle_submit_output lib now sid data s"
| "handle lib (Submit_downtime now sid data) s = handle_submit_downtime lib now sid data s"
| "handle lib (Submit_scrap_data_event now data) s = handle_scrap_submission lib now data s"
| "handle lib (Join_machine_room sid data) s = handle_join_machine_room sid data s"
| "handle lib (Mark_plan_complete utcnow data) s = handle_mark_plan_complete lib utcnow data s"
| "handle lib (Request_dequeue_plan utcnow sid data) s =
     handle_request_dequeue_plan lib utcnow sid data s"
| "handle lib (Request_dashboard_data now data) s = (s, handle_request_dashboard_data lib now data s)"
| "handle lib (Request_plan_history sid data) s = (s, handle_request_plan_history sid data s)"
| "handle lib (Request_queued_plans sid data) s = (s, handle_request_queued_plans sid data s)"
| "handle lib (Request_scrap_history sid) s = (s, handle_scrap_history_request sid s)"
| "handle lib (Send_live_message sid data) s = (s, handle_send_live_message sid data s)"
| "handle lib (Connect now path) s = (s, handle_connect lib now path s)"
| "handle lib (Disconnect sid) s = handle_disconnect sid s"

text \<open>The state after a sequence of events.\<close>

fun run :: "pylib \<Rightarrow> event list \<Rightarrow> server_state \<Rightarrow> server_state" where
  "run lib [] s = s"
| "run lib (ev # evs) s = run lib evs (fst (handle lib ev s))"

text \<open>
  The state at start-up: the logs and the plan dictionaries are what the files hold, and
  \<^verbatim>\<open>SID_TO_MACHINE\<close> is empty. The keys of a dictionary are distinct.
\<close>

definition startup :: "server_state \<Rightarrow> bool" where
  "startup s =
     (SID_TO_MACHINE s = [] \<and> distinct (map fst (MACHINE_PLANS s))
      \<and> distinct (map fst (MACHINE_PLAN_QUEUES s)) \<and> distinct (map fst (MACHINE_PLAN_HISTORY s)))"

text \<open>The state of a server that starts with no files.\<close>

definition empty_state :: server_state where
  "empty_state =
     \<lparr>SUBMISSION_LOG = [], DOWNTIME_LOG = [], SCRAP_LOG = [], INITIAL_CABLE_STOCK = [],
      MACHINE_PLANS = [], MACHINE_PLAN_QUEUES = [], MACHINE_PLAN_HISTORY = [],
      SID_TO_MACHINE = []\<rparr>"

section \<open>Example values\<close>

text \<open>
  Concrete values for the examples that follow the theorems: a few datetimes, and the values
  the library functions take on the canonical, zero-padded texts the examples use.
\<close>

definition mk_datetime :: "nat \<Rightarrow> nat \<Rightarrow> nat \<Rightarrow> nat \<Rightarrow> nat \<Rightarrow> nat \<Rightarrow> datetime" where
  "mk_datetime y mo d h mi sec =
     \<lparr>year = y, month = mo, day = d, hour = h, minute = mi, second = sec, microsecond = 0\<rparr>"

definition pad :: "nat \<Rightarrow> nat \<Rightarrow> string" where
  "pad w n = replicate (w - length (str_nat n)) CHR ''0'' @ str_nat n"

definition iso_date :: "datetime \<Rightarrow> string" where
  "iso_date dt = pad 4 (year dt) @ ''-'' @ pad 2 (month dt) @ ''-'' @ pad 2 (day dt)"

definition iso_time :: "datetime \<Rightarrow> string" where
  "iso_time dt = pad 2 (hour dt) @ '':'' @ pad 2 (minute dt) @ '':'' @ pad 2 (second dt)"

definition example_lib :: pylib where
  "example_lib =
     \<lparr>strptime = (\<lambda>text fmt.
        map_of
          [((''2024-01-15'', ''%Y-%m-%d''), mk_datetime 2024 1 15 0 0 0),
           ((''2024-01-16'', ''%Y-%m-%d''), mk_datetime 2024 1 16 0 0 0),
           ((''2024-01-15 08:30'', ''%Y-%m-%d %H:%M''), mk_datetime 2024 1 15 8 30 0),
           ((''2024-01-15 14:45'', ''%Y-%m-%d %H:%M''), mk_datetime 2024 1 15 14 45 0),
           ((''2024-01-16 09:00'', ''%Y-%m-%d %H:%M''), mk_datetime 2024 1 16 9 0 0)]
          (text, fmt)),
      fromisoformat = (\<lambda>text.
        map_of
          [(''2024-01-15T10:00:00'',
              \<lparr>local_time = mk_datetime 2024 1 15 10 0 0, utcoffset = None\<rparr>),
           (''2024-01-15T08:30:00'',
              \<lparr>local_time = mk_datetime 2024 1 15 8 30 0, utcoffset = None\<rparr>),
           (''2024-01-15T09:00:00+00:00'',
              \<lparr>local_time = mk_datetime 2024 1 15 9 0 0, utcoffset = Some 0\<rparr>),
           (''2024-01-15T09:30:00+00:00'',
              \<lparr>local_time = mk_datetime 2024 1 15 9 30 0, utcoffset = Some 0\<rparr>)]
          text),
      strftime = (\<lambda>dt fmt.
        if fmt = ''%Y-%m-%d'' then iso_date dt else iso_date dt @ '' '' @ iso_time dt),
      isoformat = (\<lambda>dt. iso_date dt @ ''T'' @ iso_time dt),
      isoformat_aware = (\<lambda>t.
        iso_date (local_time t) @ ''T'' @ iso_time (local_time t)
          @ (if aware t then ''+00:00'' else [])),
      int_of_str = (\<lambda>text. map_of [(''3'', 3), (''7'', 7), (''10'', 10)] text)\<rparr>"

text \<open>A reading of the clock.\<close>

definition noon :: datetime where
  "noon = mk_datetime 2024 1 15 12 0 0"

text \<open>Two decoded plan sheets, and the request that marks a row of a machine's plan.\<close>

definition sheet_A :: "row list" where
  "sheet_A = [[(''part'', ''P-100'')], [(''part'', ''P-200'')], [(''part'', ''P-300'')]]"

definition sheet_B :: "row list" where
  "sheet_B = [[(''part'', ''Q-1'')], [(''part'', ''Q-2'')]]"

definition mark_request :: "string \<Rightarrow> string \<Rightarrow> json" where
  "mark_request machine_name line_id = [(''lineId'', line_id), (''machineName'', machine_name)]"

definition machine_request :: "string \<Rightarrow> json" where
  "machine_request machine_name = [(''machineName'', machine_name)]"

text \<open>Plan A is active on machine M1.\<close>

definition state_A :: server_state where
  "state_A = run example_lib [Upload_plan noon (Some ''M1'') sheet_A] empty_state"

text \<open>Plan A is active on M1 and plan B waits in the queue.\<close>

definition state_AB :: server_state where
  "state_AB = run example_lib [Upload_plan noon (Some ''M1'') sheet_B] state_A"

text \<open>As before, with rows 2 and 3 of plan A completed: row 1 is the last pending one.\<close>

definition state_AB_last :: server_state where
  "state_AB_last =
     run example_lib
       [Mark_plan_complete noon (mark_request ''M1'' ''M1_2''),
        Mark_plan_complete noon (mark_request ''M1'' ''M1_3'')] state_AB"

text \<open>Plan A is active on M1, all its rows are completed, and the queue is empty.\<close>

definition state_A_done :: server_state where
  "state_A_done =
     run example_lib
       [Mark_plan_complete noon (mark_request ''M1'' ''M1_1''),
        Mark_plan_complete noon (mark_request ''M1'' ''M1_2''),
        Mark_plan_complete noon (mark_request ''M1'' ''M1_3'')] state_A"

text \<open>
  An empty sheet was queued behind plan A and then plan B behind it; plan A was completed, so
  the empty plan is active and plan B waits.
\<close>

definition state_empty_active :: server_state where
  "state_empty_active =
     run example_lib
       [Upload_plan noon (Some ''M1'') [],
        Upload_plan noon (Some ''M1'') sheet_B,
        Mark_plan_complete noon (mark_request ''M1'' ''M1_1''),
        Mark_plan_complete noon (mark_request ''M1'' ''M1_2''),
        Mark_plan_complete noon (mark_request ''M1'' ''M1_3'')] state_A"

text \<open>The plans of the two sheets on M1, and plan A with rows completed.\<close>

definition plan_A :: plan where
  "plan_A =
     [[(''part'', ''P-100''), (''line_id'', ''M1_1''), (''status'', ''pending'')],
      [(''part'', ''P-200''), (''line_id'', ''M1_2''), (''status'', ''pending'')],
      [(''part'', ''P-300''), (''line_id'', ''M1_3''), (''status'', ''pending'')]]"

definition plan_A_last :: plan where
  "plan_A_last =
     [[(''part'', ''P-100''), (''line_id'', ''M1_1''), (''status'', ''pending'')],
      [(''part'', ''P-200''), (''line_id'', ''M1_2''), (''status'', ''completed'')],
      [(''part'', ''P-300''), (''line_id'', ''M1_3''), (''status'', ''completed'')]]"

definition plan_A_done :: plan where
  "plan_A_done =
     [[(''part'', ''P-100''), (''line_id'', ''M1_1''), (''status'', ''completed'')],
      [(''part'', ''P-200''), (''line_id'', ''M1_2''), (''status'', ''completed'')],
      [(''part'', ''P-300''), (''line_id'', ''M1_3''), (''status'', ''completed'')]]"

definition plan_B :: plan where
  "plan_B =
     [[(''part'', ''Q-1''), (''line_id'', ''M1_1''), (''status'', ''pending'')],
      [(''part'', ''Q-2''), (''line_id'', ''M1_2''), (''status'', ''pending'')]]"

section \<open>How an active plan changes\<close>

text \<open>
  The rows of \<open>p'\<close> are those of \<open>p\<close>, each one as it was or with its status set to
  completed.
\<close>

definition only_completions :: "plan \<Rightarrow> plan \<Rightarrow> bool" where
  "only_completions p p' =
     list_all2 (\<lambda>r r'. r' = r \<or> r' = AList.update ''status'' ''completed'' r) p p'"

text \<open>The machine's active plan stays in place, and nothing is added to its history.\<close>

definition kept :: "string \<Rightarrow> server_state \<Rightarrow> server_state \<Rightarrow> bool" where
  "kept m s s' =
     (only_completions (getActive m s) (getActive m s') \<and> getHistory m s' = getHistory m s)"

text \<open>
  Promotion by \<^verbatim>\<open>handle_mark_plan_complete\<close>: the head of the machine's queue becomes
  its active plan, and the plan it replaces, which has no pending row, is the plan of a new last
  entry of the history, also when that plan is empty.
\<close>

definition promoted_on_completion :: "string \<Rightarrow> server_state \<Rightarrow> server_state \<Rightarrow> bool" where
  "promoted_on_completion m s s' =
     (getQueuedPlans m s \<noteq> []
      \<and> getActive m s' = hd (getQueuedPlans m s)
      \<and> getQueuedPlans m s' = tl (getQueuedPlans m s)
      \<and> getHistory m s' \<noteq> [] \<and> butlast (getHistory m s') = getHistory m s
      \<and> only_completions (getActive m s) (archived_plan (last (getHistory m s')))
      \<and> \<not> has_pending (archived_plan (last (getHistory m s'))))"

text \<open>
  Promotion by \<^verbatim>\<open>handle_request_dequeue_plan\<close>: the head of the machine's queue becomes
  its active plan, and the plan it replaces is the plan of a new last entry of the history,
  unless there was no plan, or an empty one, to replace: then the history stays as it is.
\<close>

definition promoted_on_request :: "string \<Rightarrow> server_state \<Rightarrow> server_state \<Rightarrow> bool" where
  "promoted_on_request m s s' =
     (getQueuedPlans m s \<noteq> []
      \<and> getActive m s' = hd (getQueuedPlans m s)
      \<and> getQueuedPlans m s' = tl (getQueuedPlans m s)
      \<and> (if getActive m s = [] then getHistory m s' = getHistory m s
          else getHistory m s' \<noteq> [] \<and> butlast (getHistory m s') = getHistory m s
            \<and> archived_plan (last (getHistory m s')) = getActive m s))"

text \<open>
  The uploaded sheet becomes the machine's active plan at once, in the place of a plan with no
  row left to complete, and nothing is added to the history.
\<close>

definition directly_activated ::
  "string \<Rightarrow> row list \<Rightarrow> server_state \<Rightarrow> server_state \<Rightarrow> bool" where
  "directly_activated m df s s' =
     (\<not> has_pending (getActive m s)
      \<and> getActive m s' = number_rows m 0 (take 10 df)
      \<and> getQueuedPlans m s' = getQueuedPlans m s
      \<and> getHistory m s' = getHistory m s)"

section \<open>Presence invariant\<close>

text \<open>
  \<^verbatim>\<open>SID_TO_MACHINE\<close> as a dictionary in which no machine name occurs twice: the keys
  are distinct and so are the values.
\<close>

definition presence_ok :: "(string \<times> string) list \<Rightarrow> bool" where
  "presence_ok al = (distinct (map fst al) \<and> distinct (map snd al))"


text \<open>Connection c1 has joined as machine M2.\<close>

definition state_joined :: server_state where
  "state_joined = run example_lib [Join_machine_room ''c1'' (machine_request ''M2'')] empty_state"

section \<open>Metric fields and a production submission\<close>

text \<open>
  The ten metric fields of the display record that \<^verbatim>\<open>broadcast_data\<close> builds, each with
  the two keys of the entry it is taken from: the manual one and the measured one.
\<close>

definition metric_fields :: "(string \<times> string \<times> string) list" where
  "metric_fields =
     [(''t1_crimp_height'', ''t1_crimp_height_manual'', ''t1_crimp_height_measured''),
      (''t1_insulation_height'', ''t1_insulation_height_manual'', ''t1_insulation_height_measured''),
      (''t1_crimp_width'', ''t1_crimp_width_manual'', ''t1_crimp_width_measured''),
      (''t1_insulation_width'', ''t1_insulation_width_manual'', ''t1_insulation_width_measured''),
      (''t1_pull_force'', ''t1_pull_force_manual'', ''t1_pull_force_measured''),
      (''t2_crimp_height'', ''t2_crimp_height_manual'', ''t2_crimp_height_measured''),
      (''t2_insulation_height'', ''t2_insulation_height_manual'', ''t2_insulation_height_measured''),
      (''t2_crimp_width'', ''t2_crimp_width_manual'', ''t2_crimp_width_measured''),
      (''t2_insulation_width'', ''t2_insulation_width_manual'', ''t2_insulation_width_measured''),
      (''t2_pull_force'', ''t2_pull_force_manual'', ''t2_pull_force_measured'')]"


text \<open>A production submission, and the log entry it becomes.\<close>

definition output_request :: json where
  "output_request =
     [(''entry_date'', ''2024-01-15''), (''entry_time'', ''08:30''), (''machine_name'', ''M3''),
      (''produced_qty'', ''10''), (''t1_crimp_height_manual'', ''5.2''),
      (''t1_crimp_height_measured'', ''5.0'')]"

definition output_entry :: production_entry where
  "output_entry = \<lparr>entry_fields = output_request, entry_datetime = mk_datetime 2024 1 15 8 30 0\<rparr>"

section \<open>Datetimes of the calendar and a downtime submission\<close>





section \<open>Lemmas on dictionaries and rows\<close>

lemma get_or_update_same: "get_or (AList.update k v al) k d = v"
  by (simp add: get_or_def update_conv')

lemma get_or_update_other: "k' \<noteq> k \<Longrightarrow> get_or (AList.update k v al) k' d = get_or al k' d"
  by (simp add: get_or_def update_conv')

lemma get_or_Some: "map_of al k = Some v \<Longrightarrow> get_or al k d = v"
  by (simp add: get_or_def)

lemma has_pending_nonempty: "has_pending p \<Longrightarrow> p \<noteq> []"
  by (auto simp: has_pending_def)

lemma complete_row_same_rows:
  "map (AList.delete ''status'') (complete_row line_id p) = map (AList.delete ''status'') p"
  by (induction p) (auto simp: delete_update_same)

lemma complete_row_idem: "complete_row line_id (complete_row line_id p) = complete_row line_id p"
  by (induction p) (auto simp: update_conv')

lemma complete_row_unmatched:
  "find (\<lambda>item. map_of item ''line_id'' = Some line_id) p = None \<Longrightarrow> complete_row line_id p = p"
  by (induction p) (auto split: if_splits)

lemma complete_row_completed:
  "find (\<lambda>item. map_of item ''line_id'' = Some line_id) p = Some item \<Longrightarrow>
   map_of item ''status'' = Some ''completed'' \<Longrightarrow> complete_row line_id p = p"
  by (induction p) (auto split: if_splits simp: update_triv)

lemma only_completions_refl: "only_completions p p"
  by (simp add: only_completions_def list_all2_same)

lemma only_completions_complete_row: "only_completions p (complete_row line_id p)"
  unfolding only_completions_def
  by (induction p) (auto simp: list_all2_same)

lemma kept_refl: "kept m s s"
  by (simp add: kept_def only_completions_refl)

section \<open>The example states\<close>

lemmas run_defs = upload_plan_def handle_mark_plan_complete_def handle_request_dequeue_plan_def
  archive_current_def truthy_def Let_def get_or_def getActive_def getQueuedPlans_def getHistory_def
  getQueueDepth_def has_pending_def
  empty_state_def sheet_A_def sheet_B_def mark_request_def machine_request_def
  str_nat.simps digit_char_def

lemmas plan_defs = plan_A_def plan_A_last_def plan_A_done_def plan_B_def

lemma plan_rows:
  "number_rows ''M1'' 0 (take 10 sheet_A) = plan_A"
  "number_rows ''M1'' 0 (take 10 sheet_B) = plan_B"
  by (simp_all add: run_defs plan_defs)

lemma state_A_plans:
  "SID_TO_MACHINE state_A = []"
  "MACHINE_PLANS state_A = [(''M1'', plan_A)]"
  "MACHINE_PLAN_QUEUES state_A = []"
  "MACHINE_PLAN_HISTORY state_A = []"
  by (simp_all add: state_A_def run_defs plan_defs)

lemma state_AB_plans:
  "MACHINE_PLANS state_AB = [(''M1'', plan_A)]"
  "MACHINE_PLAN_QUEUES state_AB = [(''M1'', [plan_B])]"
  "MACHINE_PLAN_HISTORY state_AB = []"
  by (simp_all add: state_AB_def state_A_plans run_defs plan_defs)

lemma state_AB_last_plans:
  "MACHINE_PLANS state_AB_last = [(''M1'', plan_A_last)]"
  "MACHINE_PLAN_QUEUES state_AB_last = [(''M1'', [plan_B])]"
  "MACHINE_PLAN_HISTORY state_AB_last = []"
  by (simp_all add: state_AB_last_def state_AB_plans run_defs plan_defs)

lemma state_A_done_plans:
  "MACHINE_PLANS state_A_done = [(''M1'', plan_A_done)]"
  "MACHINE_PLAN_QUEUES state_A_done = []"
  "MACHINE_PLAN_HISTORY state_A_done = []"
  by (simp_all add: state_A_done_def state_A_plans run_defs plan_defs)

lemma state_empty_active_plans:
  "MACHINE_PLANS state_empty_active = [(''M1'', [])]"
  "MACHINE_PLAN_QUEUES state_empty_active = [(''M1'', [plan_B])]"
  "MACHINE_PLAN_HISTORY state_empty_active
     = [(''M1'', [\<lparr>archived_at = isoformat example_lib noon, archived_plan = plan_A_done\<rparr>])]"
  by (simp_all add: state_empty_active_def state_A_plans run_defs plan_defs)

section \<open>Queueing, promotion and dequeueing\<close>

lemmas getters = getActive_def getQueuedPlans_def getQueueDepth_def getHistory_def get_or_def

text \<open>
  C4. When the machine has an active plan with at least one row whose status is not completed,
  \<^verbatim>\<open>upload_plan\<close> for that machine (submitPlan) leaves \<^verbatim>\<open>MACHINE_PLANS\<close> as it is,
  so the active plan is unchanged, appends the new plan to the back of the machine's queue, and
  the queue depth grows by exactly 1; the queues of other machines and the history stay as they
  are. The machine name is a non-empty string: the route answers a request without one with an
  error.
\<close>

theorem submit_plan_queues_behind_pending:
  assumes "target_machine \<noteq> []"
    and "map_of (MACHINE_PLANS s) target_machine = Some p"
    and "has_pending p"
  shows "\<exists>resp s' es.
      upload_plan lib now (Some target_machine) df s = (resp, s', es)
    \<and> MACHINE_PLANS s' = MACHINE_PLANS s
    \<and> getActive target_machine s' = p
    \<and> getQueuedPlans target_machine s' =
        getQueuedPlans target_machine s @ [number_rows target_machine 0 (take 10 df)]
    \<and> getQueueDepth target_machine s' = getQueueDepth target_machine s + 1
    \<and> (\<forall>m. m \<noteq> target_machine \<longrightarrow> getQueuedPlans m s' = getQueuedPlans m s)
    \<and> MACHINE_PLAN_HISTORY s' = MACHINE_PLAN_HISTORY s"
  using assms has_pending_nonempty[OF assms(3)]
  by (simp add: upload_plan_def truthy_def Let_def getActive_def getQueuedPlans_def getQueueDepth_def
      get_or_update_same get_or_update_other)
    (simp add: get_or_def)

text \<open>
  Plan A is active on M1 with pending rows; uploading sheet B leaves it active and makes the
  queue depth 1.
\<close>

theorem submit_plan_queues_behind_pending_witness:
  "has_pending plan_A
   \<and> getActive ''M1'' state_A = plan_A
   \<and> getQueueDepth ''M1'' state_A = 0
   \<and> getActive ''M1'' (fst (snd (upload_plan example_lib noon (Some ''M1'') sheet_B state_A)))
       = plan_A
   \<and> getQueuedPlans ''M1'' (fst (snd (upload_plan example_lib noon (Some ''M1'') sheet_B state_A)))
       = [plan_B]
   \<and> getQueueDepth ''M1'' (fst (snd (upload_plan example_lib noon (Some ''M1'') sheet_B state_A)))
       = 1"
proof -
  have h1: "''M1'' \<noteq> []" by simp
  have h2: "map_of (MACHINE_PLANS state_A) ''M1'' = Some plan_A"
    by (simp add: state_A_plans)
  have h3: "has_pending plan_A"
    by (simp add: plan_A_def has_pending_def)
  have q: "getQueuedPlans ''M1'' state_A = []" "getActive ''M1'' state_A = plan_A"
    by (simp_all add: getters state_A_plans)
  from submit_plan_queues_behind_pending [OF h1 h2 h3, of example_lib noon sheet_B]
  show ?thesis using q h3 by (auto simp: plan_rows getQueueDepth_def)
qed

text \<open>
  C2. When \<^verbatim>\<open>handle_mark_plan_complete\<close> (markRowComplete) leaves no row of the
  machine's active plan pending and the machine's queue is not empty, then right after the call
  the active plan is the former head of the queue, the queue is its former tail, and the history
  has gained exactly one entry, at its end, whose plan is the previously active plan: its rows
  as they were, the completed row marked.
\<close>

theorem promotion_on_last_completion:
  assumes "map_of data ''lineId'' = Some line_id" and "line_id \<noteq> []"
    and "map_of data ''machineName'' = Some m" and "m \<noteq> []"
    and "map_of (MACHINE_PLANS s) m = Some p"
    and "\<not> has_pending (complete_row line_id p)"
    and "getQueuedPlans m s = next_plan # rest"
  shows "\<exists>s' es.
      handle_mark_plan_complete lib utcnow data s = (s', es)
    \<and> getActive m s' = next_plan
    \<and> getQueuedPlans m s' = rest
    \<and> getHistory m s' = getHistory m s
         @ [\<lparr>archived_at = isoformat lib utcnow, archived_plan = complete_row line_id p\<rparr>]
    \<and> only_completions p (complete_row line_id p)"
  using assms
  by (simp add: handle_mark_plan_complete_def truthy_def Let_def getActive_def getQueuedPlans_def
      getHistory_def get_or_update_same only_completions_complete_row)

text \<open>
  Row 1 is the last pending row of plan A and plan B waits: completing row 1 makes plan B
  active, empties the queue and archives plan A.
\<close>

theorem promotion_on_last_completion_witness:
  "getActive ''M1'' state_AB_last = plan_A_last
   \<and> has_pending plan_A_last
   \<and> getQueuedPlans ''M1'' state_AB_last = [plan_B]
   \<and> getHistory ''M1'' state_AB_last = []
   \<and> getActive ''M1''
        (fst (handle_mark_plan_complete example_lib noon (mark_request ''M1'' ''M1_1'') state_AB_last))
       = plan_B
   \<and> getQueuedPlans ''M1''
        (fst (handle_mark_plan_complete example_lib noon (mark_request ''M1'' ''M1_1'') state_AB_last))
       = []
   \<and> getHistory ''M1''
        (fst (handle_mark_plan_complete example_lib noon (mark_request ''M1'' ''M1_1'') state_AB_last))
       = [\<lparr>archived_at = isoformat example_lib noon, archived_plan = plan_A_done\<rparr>]"
proof -
  have h1: "map_of (mark_request ''M1'' ''M1_1'') ''lineId'' = Some ''M1_1''"
    and h2: "''M1_1'' \<noteq> []"
    and h3: "map_of (mark_request ''M1'' ''M1_1'') ''machineName'' = Some ''M1''"
    and h4: "''M1'' \<noteq> []"
    by (simp_all add: mark_request_def)
  have h5: "map_of (MACHINE_PLANS state_AB_last) ''M1'' = Some plan_A_last"
    by (simp add: state_AB_last_plans)
  have c: "complete_row ''M1_1'' plan_A_last = plan_A_done"
    by (simp add: plan_defs)
  have h6: "\<not> has_pending (complete_row ''M1_1'' plan_A_last)"
    by (simp add: c) (simp add: plan_defs has_pending_def)
  have h7: "getQueuedPlans ''M1'' state_AB_last = plan_B # []"
    by (simp add: getters state_AB_last_plans)
  have pre: "getActive ''M1'' state_AB_last = plan_A_last" "has_pending plan_A_last"
    "getHistory ''M1'' state_AB_last = []"
    by (simp_all add: getters state_AB_last_plans) (simp add: plan_defs has_pending_def)
  from promotion_on_last_completion [OF h1 h2 h3 h4 h5 h6 h7, of example_lib noon]
  show ?thesis using pre h7 c by auto
qed

text \<open>
  C5. \<^verbatim>\<open>handle_request_dequeue_plan\<close> (dequeueNext), for a request that names a machine:
  when the machine's queue is empty it reports the failure "No queued plans" to the requester and
  changes nothing; otherwise it makes the head of the queue the active plan, leaves the tail as
  the queue, and appends the plan that was active to the history when there was one and it was
  not empty, whether or not that plan still has pending rows.
\<close>

theorem dequeue_next:
  assumes "map_of data ''machineName'' = Some m" and "m \<noteq> []"
  shows "(getQueuedPlans m s = [] \<longrightarrow>
            handle_request_dequeue_plan lib utcnow sid data s
              = (s, [(Room sid, Dequeue_failed No_queued_plans m)]))
       \<and> (\<forall>next_plan rest. getQueuedPlans m s = next_plan # rest \<longrightarrow>
            (\<exists>s' es. handle_request_dequeue_plan lib utcnow sid data s = (s', es)
               \<and> getActive m s' = next_plan
               \<and> getQueuedPlans m s' = rest
               \<and> getHistory m s' =
                    (if getActive m s = [] then getHistory m s
                     else getHistory m s
                        @ [\<lparr>archived_at = isoformat lib utcnow, archived_plan = getActive m s\<rparr>])))"
  using assms
  by (auto simp add: handle_request_dequeue_plan_def archive_current_def truthy_def Let_def
      getActive_def getQueuedPlans_def
      getHistory_def get_or_update_same split: option.splits prod.splits)
    (auto simp: get_or_def)

text \<open>
  With an empty queue the request fails and the state stays; with plan B queued behind plan A,
  whose rows are all pending, plan B becomes active and plan A is archived.
\<close>

theorem dequeue_next_witness:
  "handle_request_dequeue_plan example_lib noon ''sid1'' (machine_request ''M1'') state_A
     = (state_A, [(Room ''sid1'', Dequeue_failed No_queued_plans ''M1'')])
   \<and> getActive ''M1'' state_AB = plan_A
   \<and> has_pending plan_A
   \<and> getActive ''M1''
        (fst (handle_request_dequeue_plan example_lib noon ''sid1'' (machine_request ''M1'') state_AB))
       = plan_B
   \<and> getQueuedPlans ''M1''
        (fst (handle_request_dequeue_plan example_lib noon ''sid1'' (machine_request ''M1'') state_AB))
       = []
   \<and> getHistory ''M1''
        (fst (handle_request_dequeue_plan example_lib noon ''sid1'' (machine_request ''M1'') state_AB))
       = [\<lparr>archived_at = isoformat example_lib noon, archived_plan = plan_A\<rparr>]"
proof -
  have h1: "map_of (machine_request ''M1'') ''machineName'' = Some ''M1''" and h2: "''M1'' \<noteq> []"
    by (simp_all add: machine_request_def)
  have e: "getQueuedPlans ''M1'' state_A = []"
    by (simp add: getters state_A_plans)
  have q: "getQueuedPlans ''M1'' state_AB = plan_B # []" "getActive ''M1'' state_AB = plan_A"
    "getHistory ''M1'' state_AB = []" "has_pending plan_A" "plan_A \<noteq> []"
    by (simp_all add: getters state_AB_plans) (simp_all add: plan_defs has_pending_def)
  from dequeue_next [OF h1 h2, of state_A example_lib noon "''sid1''"] e
    dequeue_next [OF h1 h2, of state_AB example_lib noon "''sid1''"] q
  show ?thesis by auto
qed

section \<open>Marking a row twice\<close>

lemma mark_request_get:
  "map_of (mark_request m l) ''lineId'' = Some l"
  "map_of (mark_request m l) ''machineName'' = Some m"
  by (simp_all add: mark_request_def)

lemma mark_noop_cases:
  "\<not> truthy (map_of data ''lineId'') \<Longrightarrow> handle_mark_plan_complete lib utcnow data s = (s, [])"
  "\<not> truthy (map_of data ''machineName'') \<Longrightarrow> handle_mark_plan_complete lib utcnow data s = (s, [])"
  "map_of data ''machineName'' = Some m \<Longrightarrow> map_of (MACHINE_PLANS s) m = None \<Longrightarrow>
     handle_mark_plan_complete lib utcnow data s = (s, [])"
  by (auto simp: handle_mark_plan_complete_def Let_def)

lemma mark_without_promotion:
  assumes "map_of data ''lineId'' = Some line_id" and "line_id \<noteq> []"
    and "map_of data ''machineName'' = Some m" and "m \<noteq> []"
    and "map_of (MACHINE_PLANS s) m = Some p"
    and "has_pending (complete_row line_id p) \<or> getQueuedPlans m s = []"
  shows "fst (handle_mark_plan_complete lib utcnow data s)
     = s\<lparr>MACHINE_PLANS := AList.update m (complete_row line_id p) (MACHINE_PLANS s)\<rparr>"
  using assms
  by (auto simp: handle_mark_plan_complete_def Let_def truthy_def getQueuedPlans_def)

text \<open>
  C3, amended. \<^verbatim>\<open>handle_mark_plan_complete\<close> (markRowComplete) changes nothing and emits
  nothing when the line id or the machine name is missing or empty, or when the machine has no
  entry in \<^verbatim>\<open>MACHINE_PLANS\<close>. When the call promotes no queued plan (after it the
  active plan still has a row that is not completed, or the queue is empty), a second call with
  the same request leaves the state as the first call left it, and a call whose line id matches
  no row, or whose row is already completed, leaves the state as it was. The handler is a
  total function: it never reports an error.
\<close>

theorem mark_row_idempotent_without_promotion:
  "(\<not> truthy (map_of data ''lineId'') \<or> \<not> truthy (map_of data ''machineName'')
      \<or> (\<exists>m. map_of data ''machineName'' = Some m \<and> map_of (MACHINE_PLANS s) m = None)
    \<longrightarrow> handle_mark_plan_complete lib utcnow data s = (s, []))
   \<and> (\<forall>line_id m p.
        map_of data ''lineId'' = Some line_id \<and> line_id \<noteq> []
        \<and> map_of data ''machineName'' = Some m \<and> m \<noteq> []
        \<and> map_of (MACHINE_PLANS s) m = Some p
        \<and> (has_pending (complete_row line_id p) \<or> getQueuedPlans m s = [])
      \<longrightarrow> fst (handle_mark_plan_complete lib utcnow' data
                 (fst (handle_mark_plan_complete lib utcnow data s)))
            = fst (handle_mark_plan_complete lib utcnow data s)
          \<and> (find (\<lambda>item. map_of item ''line_id'' = Some line_id) p = None
              \<or> (\<exists>item. find (\<lambda>item. map_of item ''line_id'' = Some line_id) p = Some item
                    \<and> map_of item ''status'' = Some ''completed'')
             \<longrightarrow> fst (handle_mark_plan_complete lib utcnow data s) = s))"
proof (intro conjI allI impI)
  assume "\<not> truthy (map_of data ''lineId'') \<or> \<not> truthy (map_of data ''machineName'')
      \<or> (\<exists>m. map_of data ''machineName'' = Some m \<and> map_of (MACHINE_PLANS s) m = None)"
  then show "handle_mark_plan_complete lib utcnow data s = (s, [])"
    using mark_noop_cases by blast
next
  fix line_id m p
  assume h: "map_of data ''lineId'' = Some line_id \<and> line_id \<noteq> []
        \<and> map_of data ''machineName'' = Some m \<and> m \<noteq> []
        \<and> map_of (MACHINE_PLANS s) m = Some p
        \<and> (has_pending (complete_row line_id p) \<or> getQueuedPlans m s = [])"
  let ?s1 = "s\<lparr>MACHINE_PLANS := AList.update m (complete_row line_id p) (MACHINE_PLANS s)\<rparr>"
  have once: "fst (handle_mark_plan_complete lib utcnow data s) = ?s1"
    using h by (intro mark_without_promotion) auto
  have p1: "map_of (MACHINE_PLANS ?s1) m = Some (complete_row line_id p)"
    by (simp add: update_conv')
  have np: "has_pending (complete_row line_id (complete_row line_id p)) \<or> getQueuedPlans m ?s1 = []"
    using h by (simp add: complete_row_idem getQueuedPlans_def)
  have "fst (handle_mark_plan_complete lib utcnow' data ?s1)
      = ?s1\<lparr>MACHINE_PLANS :=
            AList.update m (complete_row line_id (complete_row line_id p)) (MACHINE_PLANS ?s1)\<rparr>"
    using h p1 np by (intro mark_without_promotion) auto
  then show "fst (handle_mark_plan_complete lib utcnow' data
                 (fst (handle_mark_plan_complete lib utcnow data s)))
            = fst (handle_mark_plan_complete lib utcnow data s)"
    by (simp add: once complete_row_idem)
  assume "find (\<lambda>item. map_of item ''line_id'' = Some line_id) p = None
              \<or> (\<exists>item. find (\<lambda>item. map_of item ''line_id'' = Some line_id) p = Some item
                    \<and> map_of item ''status'' = Some ''completed'')"
  then have "complete_row line_id p = p"
    using complete_row_unmatched complete_row_completed by blast
  then show "fst (handle_mark_plan_complete lib utcnow data s) = s"
    using h by (simp add: once update_triv)
qed

text \<open>
  On the state with plan A active and nothing queued: a request for the unknown machine M2
  changes nothing, completing row 2 twice is the same as once, and the unmatched line id
  \<^verbatim>\<open>M1_7\<close> changes nothing.
\<close>

theorem mark_row_idempotent_without_promotion_witness:
  "handle_mark_plan_complete example_lib noon (mark_request ''M2'' ''M2_1'') state_A = (state_A, [])
   \<and> fst (handle_mark_plan_complete example_lib noon (mark_request ''M1'' ''M1_2'')
        (fst (handle_mark_plan_complete example_lib noon (mark_request ''M1'' ''M1_2'') state_A)))
       = fst (handle_mark_plan_complete example_lib noon (mark_request ''M1'' ''M1_2'') state_A)
   \<and> fst (handle_mark_plan_complete example_lib noon (mark_request ''M1'' ''M1_7'') state_A)
       = state_A"
proof -
  have a: "map_of (mark_request ''M2'' ''M2_1'') ''machineName'' = Some ''M2''"
    "map_of (MACHINE_PLANS state_A) ''M2'' = None"
    by (simp_all add: mark_request_def state_A_plans)
  have b: "map_of (mark_request ''M1'' l) ''lineId'' = Some l"
    "map_of (mark_request ''M1'' l) ''machineName'' = Some ''M1''"
    "map_of (MACHINE_PLANS state_A) ''M1'' = Some plan_A"
    "getQueuedPlans ''M1'' state_A = []" for l
    by (simp_all add: mark_request_def state_A_plans getters)
  have c: "find (\<lambda>item. map_of item ''line_id'' = Some ''M1_7'') plan_A = None"
    by (simp add: plan_A_def)
  from mark_row_idempotent_without_promotion
    [of "mark_request ''M2'' ''M2_1''" state_A example_lib noon noon] a
  have 1: "handle_mark_plan_complete example_lib noon (mark_request ''M2'' ''M2_1'') state_A
      = (state_A, [])"
    by blast
  from mark_row_idempotent_without_promotion
    [of "mark_request ''M1'' ''M1_2''" state_A example_lib noon noon] b
  have 2: "fst (handle_mark_plan_complete example_lib noon (mark_request ''M1'' ''M1_2'')
        (fst (handle_mark_plan_complete example_lib noon (mark_request ''M1'' ''M1_2'') state_A)))
       = fst (handle_mark_plan_complete example_lib noon (mark_request ''M1'' ''M1_2'') state_A)"
    by (metis list.distinct(1))
  from mark_row_idempotent_without_promotion
    [of "mark_request ''M1'' ''M1_7''" state_A example_lib noon noon] b c
  have 3: "fst (handle_mark_plan_complete example_lib noon (mark_request ''M1'' ''M1_7'') state_A)
       = state_A"
    by (metis list.distinct(1))
  from 1 2 3 show ?thesis by simp
qed

text \<open>
  C3 as stated fails. Line ids are numbered per machine, so the rows of plan B carry the ids
  of the rows of plan A. When the first call completes the last pending row of plan A and
  promotes plan B, the second call with the same line id completes row 1 of plan B: twice is
  not once. And with an empty plan active and plan B queued, a call with a line id that matches
  no row promotes plan B: it is not a no-op.
\<close>

theorem mark_row_twice_counterexample:
  "getActive ''M1''
     (fst (handle_mark_plan_complete example_lib noon (mark_request ''M1'' ''M1_1'') state_AB_last))
     = [[(''part'', ''Q-1''), (''line_id'', ''M1_1''), (''status'', ''pending'')],
        [(''part'', ''Q-2''), (''line_id'', ''M1_2''), (''status'', ''pending'')]]
   \<and> getActive ''M1''
       (fst (handle_mark_plan_complete example_lib noon (mark_request ''M1'' ''M1_1'')
         (fst (handle_mark_plan_complete example_lib noon (mark_request ''M1'' ''M1_1'')
            state_AB_last))))
     = [[(''part'', ''Q-1''), (''line_id'', ''M1_1''), (''status'', ''completed'')],
        [(''part'', ''Q-2''), (''line_id'', ''M1_2''), (''status'', ''pending'')]]
   \<and> fst (handle_mark_plan_complete example_lib noon (mark_request ''M1'' ''M1_1'')
         (fst (handle_mark_plan_complete example_lib noon (mark_request ''M1'' ''M1_1'')
            state_AB_last)))
     \<noteq> fst (handle_mark_plan_complete example_lib noon (mark_request ''M1'' ''M1_1'') state_AB_last)
   \<and> getActive ''M1'' state_empty_active = []
   \<and> fst (handle_mark_plan_complete example_lib noon (mark_request ''M1'' ''M1_9'')
         state_empty_active)
     \<noteq> state_empty_active"
proof -
  let ?once = "fst (handle_mark_plan_complete example_lib noon (mark_request ''M1'' ''M1_1'')
     state_AB_last)"
  let ?twice = "fst (handle_mark_plan_complete example_lib noon (mark_request ''M1'' ''M1_1'') ?once)"
  have once: "MACHINE_PLANS ?once = [(''M1'', plan_B)]" "MACHINE_PLAN_QUEUES ?once = [(''M1'', [])]"
    by (simp_all add: state_AB_last_plans handle_mark_plan_complete_def mark_request_def truthy_def
        Let_def get_or_def plan_defs has_pending_def)
  have "has_pending (complete_row ''M1_1'' plan_B)"
    by (simp add: plan_defs has_pending_def)
  then have "?twice = ?once\<lparr>MACHINE_PLANS :=
      AList.update ''M1'' (complete_row ''M1_1'' plan_B) (MACHINE_PLANS ?once)\<rparr>"
    by (intro mark_without_promotion) (simp_all add: mark_request_get once)
  then have twice: "MACHINE_PLANS ?twice
      = [(''M1'', [[(''part'', ''Q-1''), (''line_id'', ''M1_1''), (''status'', ''completed'')],
        [(''part'', ''Q-2''), (''line_id'', ''M1_2''), (''status'', ''pending'')]])]"
    by (simp add: once) (simp add: plan_defs)
  have neq: "?twice \<noteq> ?once"
  proof
    assume "?twice = ?once"
    then have "MACHINE_PLANS ?twice = MACHINE_PLANS ?once" by simp
    then show False by (simp add: once twice plan_defs)
  qed
  have e: "MACHINE_PLANS (fst (handle_mark_plan_complete example_lib noon
      (mark_request ''M1'' ''M1_9'') state_empty_active)) = [(''M1'', plan_B)]"
    by (simp add: state_empty_active_plans handle_mark_plan_complete_def mark_request_def truthy_def
        Let_def get_or_def plan_defs has_pending_def)
  have neq2: "fst (handle_mark_plan_complete example_lib noon (mark_request ''M1'' ''M1_9'')
         state_empty_active) \<noteq> state_empty_active"
  proof
    assume "fst (handle_mark_plan_complete example_lib noon (mark_request ''M1'' ''M1_9'')
         state_empty_active) = state_empty_active"
    then have "MACHINE_PLANS (fst (handle_mark_plan_complete example_lib noon
        (mark_request ''M1'' ''M1_9'') state_empty_active)) = MACHINE_PLANS state_empty_active"
      by simp
    then show False by (simp add: e state_empty_active_plans plan_defs)
  qed
  show ?thesis
    using neq neq2
    by (simp add: getActive_def get_or_def once twice state_empty_active_plans plan_defs)
qed

section \<open>At most one active plan, replaced whole\<close>

lemma mark_step:
  "kept m s (fst (handle_mark_plan_complete lib utcnow data s))
   \<or> promoted_on_completion m s (fst (handle_mark_plan_complete lib utcnow data s))"
proof (cases "truthy (map_of data ''lineId'') \<and> truthy (map_of data ''machineName'')")
  case False
  then show ?thesis by (auto simp: handle_mark_plan_complete_def Let_def kept_refl)
next
  case True
  then obtain l mn where l: "map_of data ''lineId'' = Some l" "map_of data ''machineName'' = Some mn"
    by (auto simp: truthy_def split: option.splits)
  show ?thesis
  proof (cases "map_of (MACHINE_PLANS s) mn")
    case None
    then show ?thesis using True l by (simp add: handle_mark_plan_complete_def Let_def kept_refl)
  next
    case (Some p)
    show ?thesis
    proof (cases "m = mn")
      case False
      then show ?thesis using True l Some
        by (auto simp: handle_mark_plan_complete_def Let_def kept_def getActive_def
            getHistory_def get_or_update_other only_completions_refl)
    next
      case m: True
      have p: "getActive mn s = p" using Some by (simp add: getActive_def get_or_def)
      show ?thesis
        using True l Some m p only_completions_complete_row[of p l]
        by (auto simp: handle_mark_plan_complete_def Let_def kept_def promoted_on_completion_def
            getActive_def getQueuedPlans_def getHistory_def get_or_update_same)
    qed
  qed
qed

lemma dequeue_step:
  "kept m s (fst (handle_request_dequeue_plan lib utcnow sid data s))
   \<or> promoted_on_request m s (fst (handle_request_dequeue_plan lib utcnow sid data s))"
proof (cases "truthy (map_of data ''machineName'')")
  case False
  then show ?thesis by (simp add: handle_request_dequeue_plan_def Let_def kept_refl)
next
  case True
  then obtain mn where mn: "map_of data ''machineName'' = Some mn"
    by (auto simp: truthy_def split: option.splits)
  show ?thesis
  proof (cases "m = mn")
    case False
    then show ?thesis using True mn
      by (auto simp: handle_request_dequeue_plan_def archive_current_def Let_def kept_def
          getActive_def getHistory_def get_or_update_other only_completions_refl
          split: option.splits prod.splits if_splits)
  next
    case m: True
    show ?thesis
    proof (cases "getQueuedPlans mn s")
      case Nil
      then show ?thesis using True mn
        by (simp add: handle_request_dequeue_plan_def Let_def kept_refl getQueuedPlans_def)
    next
      case (Cons next_plan rest)
      have "promoted_on_request mn s (fst (handle_request_dequeue_plan lib utcnow sid data s))"
        using True mn Cons
        by (auto simp: handle_request_dequeue_plan_def archive_current_def Let_def
            promoted_on_request_def
            getActive_def getQueuedPlans_def getHistory_def get_or_update_same
            only_completions_refl get_or_Some
            split: option.splits prod.splits if_splits)
          (auto simp: get_or_def)
      then show ?thesis using m by simp
    qed
  qed
qed

lemma upload_step:
  "kept m s (fst (snd (upload_plan lib now tm df s)))
   \<or> tm = Some m \<and> directly_activated m df s (fst (snd (upload_plan lib now tm df s)))"
proof (cases "truthy tm")
  case False
  then show ?thesis by (simp add: upload_plan_def kept_refl)
next
  case True
  then obtain t where t: "tm = Some t" "t \<noteq> []"
    by (auto simp: truthy_def split: option.splits)
  show ?thesis
  proof (cases "m = t")
    case False
    then show ?thesis using True t
      by (auto simp: upload_plan_def Let_def kept_def getActive_def getHistory_def
          get_or_update_other only_completions_refl)
  next
    case m: True
    show ?thesis using True t m
      by (auto simp: upload_plan_def Let_def kept_def directly_activated_def getActive_def
          getHistory_def getQueuedPlans_def only_completions_refl
          has_pending_def get_or_def update_conv' split: option.splits)
  qed
qed

lemma other_events_keep:
  "kept m s (fst (handle_submit_output lib now sid data s))"
  "kept m s (fst (handle_submit_downtime lib now sid data s))"
  "kept m s (fst (handle_scrap_submission lib now data s))"
  "kept m s (fst (handle_join_machine_room sid data s))"
  "kept m s (fst (handle_disconnect sid s))"
  "kept m s (fst (upload_stock lib now new_stock_data s))"
  by (auto simp: handle_submit_output_def handle_submit_downtime_def handle_scrap_submission_def
      handle_join_machine_room_def handle_disconnect_def upload_stock_def Let_def kept_def
      getActive_def
      getHistory_def only_completions_refl split: option.splits)

lemma plans_keys_distinct:
  "distinct (map fst (MACHINE_PLANS s)) \<Longrightarrow> distinct (map fst (MACHINE_PLANS (fst (handle lib ev s))))"
  by (cases ev)
    (auto simp: upload_plan_def handle_submit_output_def handle_submit_downtime_def
      handle_scrap_submission_def handle_join_machine_room_def handle_disconnect_def
      handle_mark_plan_complete_def handle_request_dequeue_plan_def archive_current_def
      upload_stock_def Let_def distinct_update split: option.splits prod.splits)

text \<open>
  C1, amended. For every machine at most one plan is active: \<^verbatim>\<open>MACHINE_PLANS\<close> is a
  dictionary, and its keys stay distinct under every event. Under every event and for every
  machine, the active plan either stays in place, with at most rows marked completed and the
  history as it was, or is replaced whole, in one of three ways. A promotion by
  \<^verbatim>\<open>handle_mark_plan_complete\<close> makes the head of the queue the active plan and archives
  the replaced plan, which has no pending row, whole as the new last entry of the history,
  also when that plan is empty. A promotion by \<^verbatim>\<open>handle_request_dequeue_plan\<close> makes the
  head of the queue the active plan and archives the replaced plan whole as the new last entry
  of the history, except that nothing is archived when there was no plan, or an empty one. A
  direct activation, by \<^verbatim>\<open>upload_plan\<close> only, puts the uploaded plan in the place of an
  active plan that has no row left to complete (none, an empty one or a fully completed one),
  and archives nothing. So \<^verbatim>\<open>upload_plan\<close> never replaces an active plan that still has a
  pending row.
\<close>

theorem active_plan_replaced_whole:
  assumes "distinct (map fst (MACHINE_PLANS s))"
  shows "distinct (map fst (MACHINE_PLANS (fst (handle lib ev s))))
    \<and> (\<forall>m. kept m s (fst (handle lib ev s))
          \<or> (\<exists>utcnow data. ev = Mark_plan_complete utcnow data)
             \<and> promoted_on_completion m s (fst (handle lib ev s))
          \<or> (\<exists>utcnow sid data. ev = Request_dequeue_plan utcnow sid data)
             \<and> promoted_on_request m s (fst (handle lib ev s))
          \<or> (\<exists>now df. ev = Upload_plan now (Some m) df
               \<and> directly_activated m df s (fst (handle lib ev s))))"
proof (intro conjI allI)
  show "distinct (map fst (MACHINE_PLANS (fst (handle lib ev s))))"
    using assms by (rule plans_keys_distinct)
next
  fix m
  show "kept m s (fst (handle lib ev s))
          \<or> (\<exists>utcnow data. ev = Mark_plan_complete utcnow data)
             \<and> promoted_on_completion m s (fst (handle lib ev s))
          \<or> (\<exists>utcnow sid data. ev = Request_dequeue_plan utcnow sid data)
             \<and> promoted_on_request m s (fst (handle lib ev s))
          \<or> (\<exists>now df. ev = Upload_plan now (Some m) df
               \<and> directly_activated m df s (fst (handle lib ev s)))"
  proof (cases ev)
    case (Upload_plan now tm df)
    then show ?thesis using upload_step[of m s lib now tm df] by auto
  next
    case (Mark_plan_complete utcnow data)
    then show ?thesis using mark_step[of m s lib utcnow data] by auto
  next
    case (Request_dequeue_plan utcnow sid data)
    then show ?thesis using dequeue_step[of m s lib utcnow sid data] by auto
  qed (simp_all add: other_events_keep kept_refl)
qed

lemma upload_over_done:
  "MACHINE_PLANS (fst (snd (upload_plan example_lib noon (Some ''M1'') sheet_B state_A_done)))
     = [(''M1'', plan_B)]"
  "MACHINE_PLAN_HISTORY (fst (snd (upload_plan example_lib noon (Some ''M1'') sheet_B state_A_done)))
     = []"
  by (simp_all add: state_A_done_plans run_defs plan_defs)

lemma promote_over_empty:
  "MACHINE_PLANS (fst (handle_mark_plan_complete example_lib noon (mark_request ''M1'' ''M1_9'')
      state_empty_active)) = [(''M1'', plan_B)]"
  "MACHINE_PLAN_QUEUES (fst (handle_mark_plan_complete example_lib noon
      (mark_request ''M1'' ''M1_9'') state_empty_active)) = [(''M1'', [])]"
  "MACHINE_PLAN_HISTORY (fst (handle_mark_plan_complete example_lib noon
      (mark_request ''M1'' ''M1_9'') state_empty_active))
     = [(''M1'', [\<lparr>archived_at = isoformat example_lib noon, archived_plan = plan_A_done\<rparr>,
                 \<lparr>archived_at = isoformat example_lib noon, archived_plan = []\<rparr>])]"
  by (simp_all add: state_empty_active_plans handle_mark_plan_complete_def mark_request_def
      truthy_def Let_def get_or_def has_pending_def)

text \<open>
  Uploading sheet B over the fully completed plan A is a direct activation. And with an empty
  plan active and plan B queued, a completion request promotes plan B and archives the empty
  plan.
\<close>

theorem active_plan_replaced_whole_witness:
  "distinct (map fst (MACHINE_PLANS state_A_done))
   \<and> distinct (map fst (MACHINE_PLANS
        (fst (handle example_lib (Upload_plan noon (Some ''M1'') sheet_B) state_A_done))))
   \<and> \<not> has_pending (getActive ''M1'' state_A_done)
   \<and> directly_activated ''M1'' sheet_B state_A_done
        (fst (handle example_lib (Upload_plan noon (Some ''M1'') sheet_B) state_A_done))
   \<and> getActive ''M1'' state_empty_active = []
   \<and> promoted_on_completion ''M1'' state_empty_active
        (fst (handle example_lib (Mark_plan_complete noon (mark_request ''M1'' ''M1_9''))
           state_empty_active))
   \<and> archived_plan (last (getHistory ''M1''
        (fst (handle example_lib (Mark_plan_complete noon (mark_request ''M1'' ''M1_9''))
           state_empty_active)))) = []"
proof -
  have d: "distinct (map fst (MACHINE_PLANS state_A_done))"
    by (simp add: state_A_done_plans)
  have nk: "\<not> kept ''M1'' state_A_done
      (fst (handle example_lib (Upload_plan noon (Some ''M1'') sheet_B) state_A_done))"
    by (simp add: kept_def getActive_def get_or_def upload_over_done state_A_done_plans
        only_completions_def plan_defs)
  have np: "\<not> has_pending (getActive ''M1'' state_A_done)"
    by (simp add: getActive_def get_or_def state_A_done_plans plan_defs has_pending_def)
  from active_plan_replaced_whole [OF d, of example_lib "Upload_plan noon (Some ''M1'') sheet_B"]
  have 1: "distinct (map fst (MACHINE_PLANS
        (fst (handle example_lib (Upload_plan noon (Some ''M1'') sheet_B) state_A_done))))
     \<and> directly_activated ''M1'' sheet_B state_A_done
        (fst (handle example_lib (Upload_plan noon (Some ''M1'') sheet_B) state_A_done))"
    using nk by auto
  have d2: "distinct (map fst (MACHINE_PLANS state_empty_active))"
    by (simp add: state_empty_active_plans)
  have nk2: "\<not> kept ''M1'' state_empty_active
      (fst (handle example_lib (Mark_plan_complete noon (mark_request ''M1'' ''M1_9''))
         state_empty_active))"
    by (simp add: kept_def getActive_def get_or_def promote_over_empty state_empty_active_plans
        only_completions_def plan_defs)
  from active_plan_replaced_whole [OF d2, of example_lib
      "Mark_plan_complete noon (mark_request ''M1'' ''M1_9'')"]
  have 2: "promoted_on_completion ''M1'' state_empty_active
        (fst (handle example_lib (Mark_plan_complete noon (mark_request ''M1'' ''M1_9''))
           state_empty_active))"
    using nk2 by auto
  have 3: "getActive ''M1'' state_empty_active = []"
    "archived_plan (last (getHistory ''M1''
        (fst (handle example_lib (Mark_plan_complete noon (mark_request ''M1'' ''M1_9''))
           state_empty_active)))) = []"
    by (simp_all add: getActive_def getHistory_def get_or_def promote_over_empty
        state_empty_active_plans)
  show ?thesis using d np 1 2 3 by simp
qed

text \<open>
  C1 as stated fails: with the fully completed plan A active on M1 and no queue, uploading
  sheet B takes plan A out of the active slot, and the history of M1 is still empty: plan A was
  not archived.
\<close>

theorem submit_plan_drops_completed_plan_counterexample:
  "getActive ''M1'' state_A_done = plan_A_done
   \<and> getHistory ''M1'' state_A_done = []
   \<and> getActive ''M1''
        (fst (snd (upload_plan example_lib noon (Some ''M1'') sheet_B state_A_done))) = plan_B
   \<and> getHistory ''M1''
        (fst (snd (upload_plan example_lib noon (Some ''M1'') sheet_B state_A_done))) = []
   \<and> plan_B \<noteq> plan_A_done"
  by (simp add: getActive_def getHistory_def get_or_def upload_over_done state_A_done_plans)
    (simp add: plan_defs)

section \<open>Scrap submissions are broadcast twice\<close>



section \<open>One connection per machine\<close>

lemma connected_elsewhere_iff:
  "connected_elsewhere sid m al \<longleftrightarrow> (\<exists>sid'. sid' \<noteq> sid \<and> (sid', m) \<in> set al)"
  by (auto simp: connected_elsewhere_def list_ex_iff)

lemma connected_elsewhere_map_of:
  "distinct (map fst al) \<Longrightarrow>
   connected_elsewhere sid m al \<longleftrightarrow> (\<exists>sid'. sid' \<noteq> sid \<and> map_of al sid' = Some m)"
  by (auto simp: connected_elsewhere_iff dest: map_of_SomeD)

lemma snd_update_set:
  "set (map snd (AList.update k v al)) \<subseteq> insert v (set (map snd al))"
  by (induction al) auto

lemma presence_ok_update:
  "presence_ok al \<Longrightarrow> \<not> connected_elsewhere sid m al \<Longrightarrow> presence_ok (AList.update sid m al)"
proof (induction al)
  case Nil
  then show ?case by (simp add: presence_ok_def)
next
  case (Cons a al)
  obtain k v where a: "a = (k, v)" by (cases a)
  have ih: "presence_ok (AList.update sid m al)"
    using Cons by (auto simp: presence_ok_def connected_elsewhere_iff)
  show ?case
  proof (cases "k = sid")
    case True
    have "m \<notin> snd ` set al"
    proof
      assume "m \<in> snd ` set al"
      then obtain k' where k': "(k', m) \<in> set al" by force
      with Cons.prems(2) have "k' = sid" by (auto simp: connected_elsewhere_iff)
      with k' Cons.prems(1) a True show False by (force simp: presence_ok_def)
    qed
    then show ?thesis using Cons.prems(1) a True by (auto simp: presence_ok_def)
  next
    case False
    have "v \<noteq> m" using Cons.prems(2) a False by (auto simp: connected_elsewhere_iff)
    moreover have "v \<notin> snd ` set al" using Cons.prems(1) a by (auto simp: presence_ok_def)
    ultimately have "v \<notin> set (map snd (AList.update sid m al))"
      using snd_update_set[of sid m al] by auto
    moreover have "k \<notin> set (map fst (AList.update sid m al))"
      using Cons.prems(1) a False by (auto simp: presence_ok_def update_keys)
    ultimately show ?thesis using ih a False by (auto simp: presence_ok_def)
  qed
qed

lemma presence_ok_delete: "presence_ok al \<Longrightarrow> presence_ok (AList.delete sid al)"
  by (auto simp: presence_ok_def distinct_delete AList.delete_eq distinct_map_filter)

lemma presence_ok_injective:
  assumes "presence_ok al" and "map_of al sid1 = Some m" and "map_of al sid2 = Some m"
  shows "sid1 = sid2"
proof -
  have "(sid1, m) \<in> set al" "(sid2, m) \<in> set al"
    using assms by (auto dest: map_of_SomeD)
  moreover have "inj_on snd (set al)"
    using assms(1) by (simp add: presence_ok_def distinct_map)
  ultimately have "(sid1, m) = (sid2, m)"
    unfolding inj_on_def by (metis snd_conv)
  then show ?thesis by simp
qed

lemma handle_presence_ok:
  "presence_ok (SID_TO_MACHINE s) \<Longrightarrow> presence_ok (SID_TO_MACHINE (fst (handle lib ev s)))"
  by (cases ev)
    (auto simp: upload_plan_def handle_submit_output_def handle_submit_downtime_def
      handle_scrap_submission_def handle_join_machine_room_def handle_disconnect_def
      handle_mark_plan_complete_def handle_request_dequeue_plan_def archive_current_def
      upload_stock_def Let_def presence_ok_update presence_ok_delete
      split: option.splits prod.splits)

lemma run_presence_ok:
  "presence_ok (SID_TO_MACHINE s) \<Longrightarrow> presence_ok (SID_TO_MACHINE (run lib evs s))"
  by (induction evs arbitrary: s) (auto simp: handle_presence_ok)

text \<open>
  C6. \<^verbatim>\<open>handle_join_machine_room\<close> (register), for a request that names a machine:
  when another connection id maps to that machine, the handler refuses with "already
  connected" (the conflict) and changes nothing; when none does, it sets the mapping of the
  requesting connection to the machine, inserting or overwriting it, and confirms the join. So
  it fails with the conflict if and only if another, distinct connection maps to the machine.
  \<^verbatim>\<open>handle_disconnect\<close> (unregister) removes the mapping of the connection, and changes
  and emits nothing when there is none. In every state the server reaches from start-up, by
  any sequence of events, no two distinct connections map to the same machine.
\<close>

theorem presence_one_connection_per_machine:
  "(distinct (map fst (SID_TO_MACHINE s)) \<and> map_of data ''machineName'' = Some m \<and> m \<noteq> [] \<longrightarrow>
      ((\<exists>sid'. sid' \<noteq> sid \<and> map_of (SID_TO_MACHINE s) sid' = Some m) \<longrightarrow>
          handle_join_machine_room sid data s
            = (s, [(Room sid, Join_confirm (Some (Already_connected m)) None)]))
      \<and> (\<not> (\<exists>sid'. sid' \<noteq> sid \<and> map_of (SID_TO_MACHINE s) sid' = Some m) \<longrightarrow>
          SID_TO_MACHINE (fst (handle_join_machine_room sid data s))
            = AList.update sid m (SID_TO_MACHINE s)
          \<and> map_of (SID_TO_MACHINE (fst (handle_join_machine_room sid data s)))
            = (map_of (SID_TO_MACHINE s))(sid \<mapsto> m)
          \<and> last (snd (handle_join_machine_room sid data s))
            = (Room sid, Join_confirm None (Some m))))
   \<and> map_of (SID_TO_MACHINE (fst (handle_disconnect sid s)))
        = (map_of (SID_TO_MACHINE s))(sid := None)
   \<and> (map_of (SID_TO_MACHINE s) sid = None \<longrightarrow> handle_disconnect sid s = (s, []))
   \<and> (startup s \<longrightarrow>
        (\<forall>sid1 sid2 machine.
           map_of (SID_TO_MACHINE (run lib evs s)) sid1 = Some machine
           \<and> map_of (SID_TO_MACHINE (run lib evs s)) sid2 = Some machine \<longrightarrow> sid1 = sid2))"
proof (intro conjI impI allI)
  assume h: "distinct (map fst (SID_TO_MACHINE s)) \<and> map_of data ''machineName'' = Some m \<and> m \<noteq> []"
  {
    assume "\<exists>sid'. sid' \<noteq> sid \<and> map_of (SID_TO_MACHINE s) sid' = Some m"
    then have "connected_elsewhere sid m (SID_TO_MACHINE s)"
      using h by (simp add: connected_elsewhere_map_of)
    then show "handle_join_machine_room sid data s
            = (s, [(Room sid, Join_confirm (Some (Already_connected m)) None)])"
      using h by (simp add: handle_join_machine_room_def truthy_def)
  }
  {
    assume "\<not> (\<exists>sid'. sid' \<noteq> sid \<and> map_of (SID_TO_MACHINE s) sid' = Some m)"
    then have n: "\<not> connected_elsewhere sid m (SID_TO_MACHINE s)"
      using h by (simp add: connected_elsewhere_map_of)
    show "SID_TO_MACHINE (fst (handle_join_machine_room sid data s))
            = AList.update sid m (SID_TO_MACHINE s)"
      using h n by (simp add: handle_join_machine_room_def truthy_def Let_def)
    then show "map_of (SID_TO_MACHINE (fst (handle_join_machine_room sid data s)))
            = (map_of (SID_TO_MACHINE s))(sid \<mapsto> m)"
      by (simp add: update_conv')
    show "last (snd (handle_join_machine_room sid data s))
            = (Room sid, Join_confirm None (Some m))"
      using h n by (simp add: handle_join_machine_room_def truthy_def Let_def)
  }
next
  show "map_of (SID_TO_MACHINE (fst (handle_disconnect sid s)))
        = (map_of (SID_TO_MACHINE s))(sid := None)"
    by (auto simp: handle_disconnect_def Let_def delete_conv')
next
  assume "map_of (SID_TO_MACHINE s) sid = None"
  then show "handle_disconnect sid s = (s, [])"
    by (simp add: handle_disconnect_def)
next
  fix sid1 sid2 machine
  assume "startup s"
  then have "presence_ok (SID_TO_MACHINE (run lib evs s))"
    by (intro run_presence_ok) (simp add: startup_def presence_ok_def)
  moreover assume "map_of (SID_TO_MACHINE (run lib evs s)) sid1 = Some machine
           \<and> map_of (SID_TO_MACHINE (run lib evs s)) sid2 = Some machine"
  ultimately show "sid1 = sid2"
    using presence_ok_injective by blast
qed

lemma state_joined_sids: "SID_TO_MACHINE state_joined = [(''c1'', ''M2'')]"
  by (simp add: state_joined_def handle_join_machine_room_def machine_request_def truthy_def
      connected_elsewhere_def empty_state_def Let_def)

text \<open>
  Connection c1 holds M2: the join of c2 as M2 is refused; once c1 has disconnected it
  succeeds; and after both joins from start-up no machine has two connections.
\<close>

theorem presence_one_connection_per_machine_witness:
  "startup empty_state
   \<and> SID_TO_MACHINE state_joined = [(''c1'', ''M2'')]
   \<and> handle_join_machine_room ''c2'' (machine_request ''M2'') state_joined
       = (state_joined, [(Room ''c2'', Join_confirm (Some (Already_connected ''M2'')) None)])
   \<and> SID_TO_MACHINE (fst (handle_join_machine_room ''c2'' (machine_request ''M2'')
         (fst (handle_disconnect ''c1'' state_joined))))
       = [(''c2'', ''M2'')]
   \<and> map_of (SID_TO_MACHINE (run example_lib
         [Join_machine_room ''c1'' (machine_request ''M2''),
          Join_machine_room ''c2'' (machine_request ''M2'')] empty_state)) ''c1'' = Some ''M2''
   \<and> map_of (SID_TO_MACHINE (run example_lib
         [Join_machine_room ''c1'' (machine_request ''M2''),
          Join_machine_room ''c2'' (machine_request ''M2'')] empty_state)) ''c2'' \<noteq> Some ''M2''"
proof -
  have st: "startup empty_state"
    by (simp add: startup_def empty_state_def)
  have d: "distinct (map fst (SID_TO_MACHINE state_joined))"
    by (simp add: state_joined_sids)
  have r: "map_of (machine_request ''M2'') ''machineName'' = Some ''M2''" "''M2'' \<noteq> []"
    by (simp_all add: machine_request_def)
  have other: "\<exists>sid'. sid' \<noteq> ''c2'' \<and> map_of (SID_TO_MACHINE state_joined) sid' = Some ''M2''"
    by (rule exI [of _ "''c1''"]) (simp add: state_joined_sids)
  have 1: "handle_join_machine_room ''c2'' (machine_request ''M2'') state_joined
       = (state_joined, [(Room ''c2'', Join_confirm (Some (Already_connected ''M2'')) None)])"
    using presence_one_connection_per_machine
      [of state_joined "machine_request ''M2''" "''M2''" "''c2''" example_lib "[]"] d r other
    by blast
  let ?s2 = "fst (handle_disconnect ''c1'' state_joined)"
  have s2: "SID_TO_MACHINE ?s2 = []"
    by (simp add: handle_disconnect_def state_joined_sids Let_def)
  have 2: "SID_TO_MACHINE (fst (handle_join_machine_room ''c2'' (machine_request ''M2'') ?s2))
       = AList.update ''c2'' ''M2'' (SID_TO_MACHINE ?s2)"
    using presence_one_connection_per_machine
      [of ?s2 "machine_request ''M2''" "''M2''" "''c2''" example_lib "[]"] r
    by (simp add: s2)
  have 3: "\<forall>sid1 sid2 machine.
         map_of (SID_TO_MACHINE (run example_lib
           [Join_machine_room ''c1'' (machine_request ''M2''),
            Join_machine_room ''c2'' (machine_request ''M2'')] empty_state)) sid1 = Some machine
         \<and> map_of (SID_TO_MACHINE (run example_lib
           [Join_machine_room ''c1'' (machine_request ''M2''),
            Join_machine_room ''c2'' (machine_request ''M2'')] empty_state)) sid2 = Some machine
         \<longrightarrow> sid1 = sid2"
    using presence_one_connection_per_machine
      [of empty_state "[]" "[]" "[]" example_lib
        "[Join_machine_room ''c1'' (machine_request ''M2''),
          Join_machine_room ''c2'' (machine_request ''M2'')]"] st
    by blast
  have 4: "map_of (SID_TO_MACHINE (run example_lib
         [Join_machine_room ''c1'' (machine_request ''M2''),
          Join_machine_room ''c2'' (machine_request ''M2'')] empty_state)) ''c1'' = Some ''M2''"
    by (simp add: handle_join_machine_room_def machine_request_def truthy_def
        connected_elsewhere_def empty_state_def Let_def)
  have 5: "map_of (SID_TO_MACHINE (run example_lib
         [Join_machine_room ''c1'' (machine_request ''M2''),
          Join_machine_room ''c2'' (machine_request ''M2'')] empty_state)) ''c2'' \<noteq> Some ''M2''"
  proof
    assume "map_of (SID_TO_MACHINE (run example_lib
         [Join_machine_room ''c1'' (machine_request ''M2''),
          Join_machine_room ''c2'' (machine_request ''M2'')] empty_state)) ''c2'' = Some ''M2''"
    with 3 4 have "''c1'' = ''c2''" by blast
    then show False by simp
  qed
  show ?thesis using st 1 2 4 5 by (simp add: state_joined_sids s2)
qed

section \<open>Queries by date\<close>

lemma set_insort_desc: "set (insort_desc f x xs) = insert x (set xs)"
  by (induction xs) auto

lemma set_sort_desc: "set (sort_desc f xs) = set xs"
  by (induction xs) (auto simp: sort_desc_def set_insort_desc)

lemma sorted_insort_desc:
  "sorted_wrt (\<lambda>a b. f b \<le> f a) xs \<Longrightarrow> sorted_wrt (\<lambda>a b. f b \<le> f a) (insort_desc f x xs)"
  by (induction xs) (auto simp: set_insort_desc)

lemma sorted_sort_desc: "sorted_wrt (\<lambda>a b. f b \<le> f a) (sort_desc f xs)"
  by (induction xs) (auto simp: sort_desc_def sorted_insort_desc)

lemma get_data_for_date_set:
  "date_str \<noteq> [] \<Longrightarrow> strptime lib date_str ''%Y-%m-%d'' = Some d \<Longrightarrow>
   set (get_data_for_date lib xs date_str) = {e \<in> set xs. date (entry_datetime e) = date d}"
  by (simp add: get_data_for_date_def set_sort_desc)

lemma get_data_for_date_sorted:
  "date_str \<noteq> [] \<Longrightarrow> strptime lib date_str ''%Y-%m-%d'' = Some d \<Longrightarrow>
   sorted_wrt (\<lambda>a b. dt_key (entry_datetime b) \<le> dt_key (entry_datetime a))
     (get_data_for_date lib xs date_str)"
  by (simp add: get_data_for_date_def sorted_sort_desc)

text \<open>
  C7. After \<^verbatim>\<open>handle_submit_output\<close> has appended an entry whose timestamp is \<open>dt\<close>,
  \<^verbatim>\<open>get_data_for_date\<close> (queryByDate on the production log) with a date text that
  parses to the calendar date of \<open>dt\<close> returns a sequence that contains the entry, and with
  a date text that parses to any other calendar date it returns a sequence that does not
  contain it; in both cases the result is sorted by timestamp, descending.
\<close>

theorem query_by_date_round_trip:
  assumes "map_of data ''entry_date'' = Some entry_date"
    and "map_of data ''entry_time'' = Some entry_time"
    and "strptime lib (entry_date @ '' '' @ entry_time) ''%Y-%m-%d %H:%M'' = Some dt"
    and "date_str \<noteq> []"
    and "strptime lib date_str ''%Y-%m-%d'' = Some d"
  shows "let entry = \<lparr>entry_fields = AList.delete ''datetime'' data, entry_datetime = dt\<rparr>;
             submission_log = SUBMISSION_LOG (fst (handle_submit_output lib now sid data s))
         in submission_log = SUBMISSION_LOG s @ [entry]
          \<and> (date d = date dt \<longrightarrow> entry \<in> set (get_data_for_date lib submission_log date_str))
          \<and> (date d \<noteq> date dt \<longrightarrow> entry \<notin> set (get_data_for_date lib submission_log date_str))
          \<and> sorted_wrt (\<lambda>a b. dt_key (entry_datetime b) \<le> dt_key (entry_datetime a))
               (get_data_for_date lib submission_log date_str)"
  using assms
  by (simp add: handle_submit_output_def Let_def get_data_for_date_set get_data_for_date_sorted)

lemma example_strptime:
  "strptime example_lib ''2024-01-15 08:30'' ''%Y-%m-%d %H:%M'' = Some (mk_datetime 2024 1 15 8 30 0)"
  "strptime example_lib ''2024-01-15'' ''%Y-%m-%d'' = Some (mk_datetime 2024 1 15 0 0 0)"
  "strptime example_lib ''2024-01-16'' ''%Y-%m-%d'' = Some (mk_datetime 2024 1 16 0 0 0)"
  by (simp_all add: example_lib_def)

lemma output_state:
  "SUBMISSION_LOG (fst (handle_submit_output example_lib noon ''c1'' output_request empty_state))
     = [output_entry]"
  by (simp add: handle_submit_output_def output_request_def output_entry_def example_strptime
      empty_state_def Let_def)

lemma output_entry_eq:
  "\<lparr>entry_fields = AList.delete ''datetime'' output_request,
     entry_datetime = mk_datetime 2024 1 15 8 30 0\<rparr> = output_entry"
  by (simp add: output_entry_def output_request_def)

text \<open>
  An entry submitted for 2024-01-15 08:30 is returned for 2024-01-15 and not for
  2024-01-16.
\<close>

theorem query_by_date_round_trip_witness:
  "SUBMISSION_LOG (fst (handle_submit_output example_lib noon ''c1'' output_request empty_state))
     = [output_entry]
   \<and> date (entry_datetime output_entry) = (2024, 1, 15)
   \<and> output_entry \<in> set (get_data_for_date example_lib
        (SUBMISSION_LOG (fst (handle_submit_output example_lib noon ''c1'' output_request empty_state)))
        ''2024-01-15'')
   \<and> output_entry \<notin> set (get_data_for_date example_lib
        (SUBMISSION_LOG (fst (handle_submit_output example_lib noon ''c1'' output_request empty_state)))
        ''2024-01-16'')"
proof -
  have h1: "map_of output_request ''entry_date'' = Some ''2024-01-15''"
    and h2: "map_of output_request ''entry_time'' = Some ''08:30''"
    by (simp_all add: output_request_def)
  have h3: "strptime example_lib (''2024-01-15'' @ '' '' @ ''08:30'') ''%Y-%m-%d %H:%M''
      = Some (mk_datetime 2024 1 15 8 30 0)"
    by (simp add: example_strptime)
  have n: "''2024-01-15'' \<noteq> []" "''2024-01-16'' \<noteq> []" by simp_all
  have same: "date (mk_datetime 2024 1 15 0 0 0) = date (mk_datetime 2024 1 15 8 30 0)"
    and other: "date (mk_datetime 2024 1 16 0 0 0) \<noteq> date (mk_datetime 2024 1 15 8 30 0)"
    and dd: "date (entry_datetime output_entry) = (2024, 1, 15)"
    by (simp_all add: date_def mk_datetime_def output_entry_def)
  from query_by_date_round_trip [OF h1 h2 h3 n(1) example_strptime(2), of noon "''c1''" empty_state]
    same
  have a: "output_entry \<in> set (get_data_for_date example_lib
        (SUBMISSION_LOG (fst (handle_submit_output example_lib noon ''c1'' output_request empty_state)))
        ''2024-01-15'')"
    unfolding Let_def output_entry_eq by blast
  from query_by_date_round_trip [OF h1 h2 h3 n(2) example_strptime(3), of noon "''c1''" empty_state]
    other
  have b: "output_entry \<notin> set (get_data_for_date example_lib
        (SUBMISSION_LOG (fst (handle_submit_output example_lib noon ''c1'' output_request empty_state)))
        ''2024-01-16'')"
    unfolding Let_def output_entry_eq by blast
  show ?thesis using a b dd output_state by simp
qed

section \<open>Manual values override measured ones\<close>

text \<open>
  C8. The log of the snapshot is the display record of each entry that
  \<^verbatim>\<open>get_data_for_date\<close> returns. In the display record of an entry, each of the ten T1/T2
  metric fields holds the manual value when the entry has a non-empty manual value, and
  otherwise the measured value (\<^verbatim>\<open>None\<close> when the entry has none). In particular an
  entry with \<^verbatim>\<open>t1_crimp_height_manual = "5.2"\<close> and
  \<^verbatim>\<open>t1_crimp_height_measured = "5.0"\<close> is displayed with
  \<^verbatim>\<open>t1_crimp_height = "5.2"\<close>.
\<close>

theorem manual_overrides_measured:
  "snap_log (dashboard_data lib s date_str)
     = map (clean_entry lib) (get_data_for_date lib (SUBMISSION_LOG s) date_str)
   \<and> length metric_fields = 10
   \<and> (\<forall>(display, manual, measured) \<in> set metric_fields.
        (\<forall>v. map_of (entry_fields entry) manual = Some v \<and> v \<noteq> [] \<longrightarrow>
              map_of (clean_entry lib entry) display = Some (PStr v))
        \<and> (map_of (entry_fields entry) manual = None \<or> map_of (entry_fields entry) manual = Some []
            \<longrightarrow> map_of (clean_entry lib entry) display
                  = Some (pyval_of (map_of (entry_fields entry) measured))))
   \<and> (map_of (entry_fields entry) ''t1_crimp_height_manual'' = Some ''5.2''
        \<and> map_of (entry_fields entry) ''t1_crimp_height_measured'' = Some ''5.0''
      \<longrightarrow> map_of (clean_entry lib entry) ''t1_crimp_height'' = Some (PStr ''5.2''))"
  by (simp add: dashboard_data_def Let_def metric_fields_def)
    (auto simp: clean_entry_def Let_def get_or_else_def truthy_def pyval_of_def)

text \<open>
  The submission above has both values for the crimp height of T1 and none for the pull force
  of T2.
\<close>

theorem manual_overrides_measured_witness:
  "map_of (entry_fields output_entry) ''t1_crimp_height_manual'' = Some ''5.2''
   \<and> map_of (entry_fields output_entry) ''t1_crimp_height_measured'' = Some ''5.0''
   \<and> map_of (clean_entry example_lib output_entry) ''t1_crimp_height'' = Some (PStr ''5.2'')
   \<and> map_of (clean_entry example_lib output_entry) ''t2_pull_force'' = Some PNone"
proof -
  have m: "map_of (entry_fields output_entry) ''t1_crimp_height_manual'' = Some ''5.2''"
    "map_of (entry_fields output_entry) ''t1_crimp_height_measured'' = Some ''5.0''"
    "map_of (entry_fields output_entry) ''t2_pull_force_manual'' = None"
    "map_of (entry_fields output_entry) ''t2_pull_force_measured'' = None"
    by (simp_all add: output_entry_def output_request_def)
  have f: "(''t2_pull_force'', ''t2_pull_force_manual'', ''t2_pull_force_measured'')
      \<in> set metric_fields"
    by (simp add: metric_fields_def)
  note t = manual_overrides_measured [of example_lib empty_state "''2024-01-15''" output_entry]
  from t m have 1: "map_of (clean_entry example_lib output_entry) ''t1_crimp_height''
      = Some (PStr ''5.2'')"
    by blast
  from t f m have 2: "map_of (clean_entry example_lib output_entry) ''t2_pull_force''
      = Some (pyval_of None)"
    by fastforce
  from m 1 2 show ?thesis by (simp add: pyval_of_def)
qed

section \<open>Downtime that ends before it starts\<close>

































end
